theory Spec2Isabelle
  imports Main "HOL-Library.Multiset"
begin

section \<open>Values, errors and outcomes\<close>

text \<open>
  A JavaScript exception value. \<open>Error m\<close> is \<^verbatim>\<open>new Error(m)\<close>; \<open>TypeError p\<close> is the
  engine's TypeError raised when property \<open>p\<close> is read from \<^verbatim>\<open>undefined\<close> (the engine's
  own message text is not modelled, only the property that was read).
\<close>

datatype js_error = Error string | TypeError string

text \<open>
  What a call of a promise-returning function of \<^verbatim>\<open>lib/buildFactory.js\<close> does: it throws
  synchronously, or it returns a promise that is later rejected or resolved.  The
  collaborators (datastore, factories, source control, the Build record) only hand back
  promises; a settled promise of theirs is a sum, \<open>Inl\<close> the rejection.
\<close>

datatype 'a outcome = Throws js_error | Rejects js_error | Resolves 'a

type_synonym 'a promise = "js_error + 'a"

section \<open>Entities read by the build factory\<close>

record command =
  name :: string

record step =
  name :: string

record permutation =
  image :: string
  commands :: "command list"

record pipeline =
  scmUrl :: string

text \<open>
  \<open>unsealToken\<close> is the settled result of \<^verbatim>\<open>user.unsealToken()\<close>; \<open>pipeline\<close> is the settled
  value of the promise behind the getter \<^verbatim>\<open>job.pipeline\<close> (\<open>None\<close> is null or undefined);
  \<open>permutations\<close> is \<open>None\<close> when the job carries no \<^verbatim>\<open>permutations\<close> array.
\<close>

record user =
  unsealToken :: "string promise"

record job =
  pipeline :: "pipeline option promise"
  permutations :: "permutation list option"

text \<open>The \<^verbatim>\<open>config\<close> argument of \<^verbatim>\<open>create\<close>, and the \<^verbatim>\<open>modelConfig\<close> built from it.\<close>

record create_config =
  jobId :: string
  username :: string
  sha :: "string option"

record model_config = create_config +
  cause :: string
  createTime :: string
  number :: int
  status :: string
  container :: "string option"
  steps :: "step list option"

text \<open>A Build record: the fields it was created from, and its id.\<close>

record build = model_config +
  build_id :: string

text \<open>The calls that leave the factory, in the order they are made.\<close>

datatype event =
    JobGet string
  | UserGet string
  | PipelineGet
  | UnsealToken
  | ScmGetCommitSha string string
  | SuperCreate model_config
  | BuildStart build

text \<open>
  Everything \<^verbatim>\<open>create\<close> reads from outside: the clock (\<^verbatim>\<open>Date.now()\<close> and
  \<^verbatim>\<open>Date.prototype.toISOString\<close>), the two sibling factory singletons (\<open>Inl\<close> when
  \<^verbatim>\<open>getInstance()\<close> throws, otherwise the factory's \<^verbatim>\<open>get\<close>), which of the two promises
  given to \<^verbatim>\<open>Promise.all\<close> settles first, the source-control plugin held in
  \<^verbatim>\<open>this.scmPlugin\<close>, the inherited \<^verbatim>\<open>BaseFactory.create\<close> and the Build's \<^verbatim>\<open>start\<close>.
\<close>

record env =
  now :: int
  toISOString :: "int \<Rightarrow> string"
  jobFactoryInstance :: "js_error + (string \<Rightarrow> job option promise)"
  userFactoryInstance :: "js_error + (string \<Rightarrow> user option promise)"
  pipelineSettlesFirst :: bool
  scmGetCommitSha :: "string \<Rightarrow> string \<Rightarrow> string promise"
  superCreate :: "model_config \<Rightarrow> build promise"
  buildStart :: "build \<Rightarrow> build promise"

section \<open>JavaScript primitives used by the factory\<close>

text \<open>\<^verbatim>\<open>if (s)\<close> on an optional string: undefined and the empty string are falsy.\<close>

fun truthy :: "string option \<Rightarrow> bool" where
  "truthy None = False"
| "truthy (Some s) = (s \<noteq> [])"

text \<open>
  \<^verbatim>\<open>Promise.all([a, b])\<close>: resolved with both values when both resolve, rejected with
  the rejection that happens first otherwise.
\<close>

fun promiseAll2 :: "bool \<Rightarrow> 'a promise \<Rightarrow> 'b promise \<Rightarrow> ('a \<times> 'b) promise" where
  "promiseAll2 bFirst (Inr a) (Inr b) = Inr (a, b)"
| "promiseAll2 bFirst (Inl e) (Inr b) = Inl e"
| "promiseAll2 bFirst (Inr a) (Inl e) = Inl e"
| "promiseAll2 bFirst (Inl e1) (Inl e2) = Inl (if bFirst then e2 else e1)"

text \<open>
  \<^verbatim>\<open>Number.prototype.toString\<close> on an integral number: the decimal digits, after a minus
  sign when negative.  (A time value has magnitude at most 8.64e15, far below 1e21 where
  the rendering would change to exponent notation.)
\<close>

definition digitChar :: "nat \<Rightarrow> char" where
  "digitChar d = ''0123456789'' ! d"

fun digitsOf :: "nat \<Rightarrow> string" where
  "digitsOf n = (if n < 10 then [digitChar n] else digitsOf (n div 10) @ [digitChar (n mod 10)])"

declare digitsOf.simps [simp del]

definition numberToString :: "int \<Rightarrow> string" where
  "numberToString n = (if n < 0 then CHR ''-'' # digitsOf (nat (- n)) else digitsOf (nat n))"

text \<open>\<^verbatim>\<open>String.prototype.split\<close> with a one-character separator.\<close>

fun split :: "char \<Rightarrow> string \<Rightarrow> string list" where
  "split c [] = [[]]"
| "split c (x # xs) =
     (if x = c then [] # split c xs
      else (case split c xs of [] \<Rightarrow> [[x]] | w # ws \<Rightarrow> (x # w) # ws))"

text \<open>Reading index \<open>i\<close> of an array: undefined (\<open>None\<close>) out of range.\<close>

definition at :: "'a list \<Rightarrow> nat \<Rightarrow> 'a option" where
  "at xs i = (if i < length xs then Some (xs ! i) else None)"

text \<open>
  The value of \<^verbatim>\<open>x || 0\<close> for a string or undefined \<open>x\<close>: the number 0 or a non-empty
  string.
\<close>

datatype js_index = IndexNumber nat | IndexString string

text \<open>
  \<^verbatim>\<open>array[index]\<close>: a number reads that element; a string key reads element \<open>i\<close> exactly
  when it is the decimal rendering of \<open>i\<close>, and is undefined otherwise.
\<close>

fun arrayGet :: "'a list \<Rightarrow> js_index \<Rightarrow> 'a option" where
  "arrayGet xs (IndexNumber i) = at xs i"
| "arrayGet xs (IndexString s) =
     (case find (\<lambda>i. digitsOf i = s) [0..<length xs] of
        None \<Rightarrow> None
      | Some i \<Rightarrow> at xs i)"

text \<open>
  \<^verbatim>\<open>hoek.applyToDefaults(config, {cause, createTime, number, status})\<close>: a copy of
  \<^verbatim>\<open>config\<close> with the four given (non-null) options written over it.  \<^verbatim>\<open>container\<close> and
  \<^verbatim>\<open>steps\<close> are not set yet.
\<close>

definition applyToDefaults ::
  "create_config \<Rightarrow> string \<Rightarrow> string \<Rightarrow> int \<Rightarrow> string \<Rightarrow> model_config" where
  "applyToDefaults config c t n s =
     create_config.extend config
       (model_config.fields c t n s None None)"

section \<open>lib/buildFactory.js\<close>

subsection \<open>getCommitSha\<close>

text \<open>
  The part of \<^verbatim>\<open>getCommitSha\<close> after \<^verbatim>\<open>Promise.all\<close> has resolved with
  \<^verbatim>\<open>[user, pipeline]\<close>; \<open>evs\<close> are the calls made so far.
\<close>

definition lookupCommit ::
  "env \<Rightarrow> event list \<Rightarrow> user option \<Rightarrow> pipeline option \<Rightarrow> event list \<times> string outcome" where
  "lookupCommit w evs u p =
     (case u of
        None \<Rightarrow> (evs, Rejects (Error ''User does not exist''))
      | Some usr \<Rightarrow>
          (case p of
             None \<Rightarrow> (evs, Rejects (Error ''Pipeline does not exist''))
           | Some pl \<Rightarrow>
               (case unsealToken usr of
                  Inl e \<Rightarrow> (evs @ [UnsealToken], Rejects e)
                | Inr token \<Rightarrow>
                    (evs @ [UnsealToken, ScmGetCommitSha (scmUrl pl) token],
                     (case scmGetCommitSha w (scmUrl pl) token of
                        Inl e \<Rightarrow> Rejects e
                      | Inr s \<Rightarrow> Resolves s)))))"

text \<open>
  \<^verbatim>\<open>getCommitSha\<close> past its guard: \<^verbatim>\<open>UserFactory.getInstance()\<close> is called (its
  exception leaves the function), \<^verbatim>\<open>userFactory.get\<close> and the getter \<^verbatim>\<open>job.pipeline\<close>
  are both started, and the callback runs on the pair they resolve with.
\<close>

definition fetchCommitSha :: "env \<Rightarrow> job \<Rightarrow> model_config \<Rightarrow> event list \<times> string outcome" where
  "fetchCommitSha w j modelConfig =
     (case userFactoryInstance w of
        Inl e \<Rightarrow> ([], Throws e)
      | Inr userFactory_get \<Rightarrow>
          (let evs = [UserGet (username modelConfig), PipelineGet] in
           case promiseAll2 (pipelineSettlesFirst w)
                  (userFactory_get (username modelConfig)) (pipeline j) of
             Inl e \<Rightarrow> (evs, Rejects e)
           | Inr (u, p) \<Rightarrow> lookupCommit w evs u p))"

text \<open>
  \<^verbatim>\<open>getCommitSha\<close>: \<^verbatim>\<open>if (config.modelConfig.sha)\<close> returns a sha that is defined and not
  the empty string at once, without any call.
\<close>

definition getCommitSha :: "env \<Rightarrow> job \<Rightarrow> model_config \<Rightarrow> event list \<times> string outcome" where
  "getCommitSha w j modelConfig =
     (case sha modelConfig of
        None \<Rightarrow> fetchCommitSha w j modelConfig
      | Some s \<Rightarrow>
          if s \<noteq> [] then ([], Resolves s)
          else fetchCommitSha w j modelConfig)"

subsection \<open>BuildFactory.create\<close>

text \<open>\<^verbatim>\<open>number.toString().split('.')[1] || 0\<close>\<close>

definition permutationIndex :: "int \<Rightarrow> js_index" where
  "permutationIndex n =
     (case at (split CHR ''.'' (numberToString n)) 1 of
        None \<Rightarrow> IndexNumber 0
      | Some s \<Rightarrow> if s = [] then IndexNumber 0 else IndexString s)"

text \<open>
  \<^verbatim>\<open>job.permutations[index]\<close>: reading an index of an undefined \<^verbatim>\<open>permutations\<close> throws;
  otherwise the element, or undefined.
\<close>

definition selectPermutation :: "job \<Rightarrow> js_index \<Rightarrow> js_error + permutation option" where
  "selectPermutation j i =
     (case permutations j of
        None \<Rightarrow> Inl (TypeError (case i of IndexNumber k \<Rightarrow> digitsOf k | IndexString s \<Rightarrow> s))
      | Some ps \<Rightarrow> Inr (arrayGet ps i))"

text \<open>
  The step list: the commands' names in order, after \<^verbatim>\<open>unshift({name: 'sd-setup'})\<close>
  and \<^verbatim>\<open>push({name: 'sd-teardown'})\<close>.
\<close>

definition buildSteps :: "permutation \<Rightarrow> step list" where
  "buildSteps p =
     (\<lparr>step.name = ''sd-setup''\<rparr> # map (\<lambda>c. \<lparr>step.name = command.name c\<rparr>) (commands p))
       @ [\<lparr>step.name = ''sd-teardown''\<rparr>]"

text \<open>
  The callback on the resolved sha, up to and including \<^verbatim>\<open>build.start()\<close>; \<open>evs\<close> are the
  calls made so far.  An exception thrown in the callback rejects the promise.
\<close>

definition persistAndStart ::
  "env \<Rightarrow> event list \<Rightarrow> job \<Rightarrow> model_config \<Rightarrow> string \<Rightarrow> event list \<times> build outcome" where
  "persistAndStart w evs j modelConfig s =
     (case selectPermutation j (permutationIndex (number modelConfig)) of
        Inl e \<Rightarrow> (evs, Rejects e)
      | Inr None \<Rightarrow> (evs, Rejects (TypeError ''image''))
      | Inr (Some p) \<Rightarrow>
          (let mc = modelConfig\<lparr>sha := Some s, container := Some (image p),
                                steps := Some (buildSteps p)\<rparr> in
           case superCreate w mc of
             Inl e \<Rightarrow> (evs @ [SuperCreate mc], Rejects e)
           | Inr b \<Rightarrow>
               (evs @ [SuperCreate mc, BuildStart b],
                (case buildStart w b of Inl e \<Rightarrow> Rejects e | Inr r \<Rightarrow> Resolves r))))"

definition create :: "env \<Rightarrow> create_config \<Rightarrow> event list \<times> build outcome" where
  "create w config =
     (let number = now w;
          createTime = toISOString w number;
          modelConfig = applyToDefaults config (''Started by user '' @ username config)
                          createTime number ''QUEUED''
      in case jobFactoryInstance w of
           Inl e \<Rightarrow> ([], Throws e)
         | Inr factory_get \<Rightarrow>
             (case factory_get (jobId config) of
                Inl e \<Rightarrow> ([JobGet (jobId config)], Rejects e)
              | Inr None \<Rightarrow> ([JobGet (jobId config)], Rejects (Error ''Job does not exist''))
              | Inr (Some j) \<Rightarrow>
                  (case getCommitSha w j modelConfig of
                     (evs, Throws e) \<Rightarrow> (JobGet (jobId config) # evs, Rejects e)
                   | (evs, Rejects e) \<Rightarrow> (JobGet (jobId config) # evs, Rejects e)
                   | (evs, Resolves s) \<Rightarrow>
                       persistAndStart w (JobGet (jobId config) # evs) j modelConfig s)))"

subsection \<open>BuildFactory.getBuildsForJobId\<close>

text \<open>
  \<^verbatim>\<open>listConfig\<close>, that is \<^verbatim>\<open>{params: {jobId}, paginate: {count, page}}\<close>, with the nested
  objects flattened.
\<close>

record list_config =
  params_jobId :: string
  paginate_count :: nat
  paginate_page :: nat

text \<open>
  \<open>this_list\<close> is the inherited \<^verbatim>\<open>this.list\<close>; \<open>config_jobId\<close> is \<^verbatim>\<open>config.jobId\<close>.  The
  result pairs the calls made to \<^verbatim>\<open>this.list\<close> with the settled promise.
  \<^verbatim>\<open>records.sort((build1, build2) => build1.number - build2.number)\<close> orders the records
  by \<^verbatim>\<open>number\<close>; it is rendered by \<open>sort_key\<close>, of which only the order and the
  elements of the result are used below, not the place it gives to records of equal number.
\<close>

definition getBuildsForJobId ::
  "(list_config \<Rightarrow> build list promise) \<Rightarrow> string \<Rightarrow> list_config list \<times> build list promise" where
  "getBuildsForJobId this_list config_jobId =
     (let listConfig = \<lparr>params_jobId = config_jobId, paginate_count = 25, paginate_page = 1\<rparr>
      in ([listConfig],
          (case this_list listConfig of
             Inl e \<Rightarrow> Inl e
           | Inr records \<Rightarrow> Inr (sort_key number records))))"

subsection \<open>BuildFactory.getInstance\<close>

text \<open>
  Collaborator objects (datastore, executor, source-control plugin, token generator) are
  named by a handle; an object is always truthy.  \<^verbatim>\<open>uiUri\<close> is a string.
\<close>

type_synonym handle = string

record factory_config =
  datastore :: "handle option"
  executor :: "handle option"
  uiUri :: "string option"
  scmPlugin :: "handle option"

text \<open>
  A BuildFactory object.  The constructor calls \<^verbatim>\<open>super('build', config)\<close> and then sets
  \<^verbatim>\<open>executor\<close>, \<^verbatim>\<open>uiUri\<close>, and \<^verbatim>\<open>apiUri\<close> and \<^verbatim>\<open>tokenGen\<close> to null.
\<close>

record build_factory =
  bf_modelName :: string
  bf_datastore :: "handle option"
  bf_scmPlugin :: "handle option"
  bf_executor :: "handle option"
  bf_uiUri :: "string option"
  bf_apiUri :: "string option"
  bf_tokenGen :: "handle option"

text \<open>
  Modelled from the spec: the constructor of BaseFactory (\<^verbatim>\<open>lib/baseFactory.js\<close> is not
  part of the sources).  It fixes the entity kind, the datastore handle and the injected
  source-control collaborator of the instance.
\<close>

definition baseConstructor :: "string \<Rightarrow> factory_config \<Rightarrow> build_factory" where
  "baseConstructor modelName config =
     \<lparr>bf_modelName = modelName, bf_datastore = datastore config,
      bf_scmPlugin = scmPlugin config, bf_executor = None, bf_uiUri = None,
      bf_apiUri = None, bf_tokenGen = None\<rparr>"

definition constructor :: "factory_config \<Rightarrow> build_factory" where
  "constructor config =
     (baseConstructor ''build'' config)
       \<lparr>bf_executor := executor config, bf_uiUri := uiUri config,
        bf_apiUri := None, bf_tokenGen := None\<rparr>"

text \<open>
  The module: the variable \<^verbatim>\<open>instance\<close> (a reference, or undefined) and the BuildFactory
  objects constructed so far; a reference is an index into \<open>objects\<close>.
\<close>

record module_state =
  instance_var :: "nat option"
  objects :: "build_factory list"

text \<open>
  Modelled from the spec: \<^verbatim>\<open>BaseFactory.getInstance(ClassDef, instance, config)\<close>
  (\<^verbatim>\<open>lib/baseFactory.js\<close> is not part of the sources).  With an instance it ignores
  \<^verbatim>\<open>config\<close> and returns the instance.  With none it requires \<^verbatim>\<open>config\<close> to carry every
  mandatory dependency (\<open>missing config\<close> is the configuration error thrown when it does
  not) and constructs the instance, which reads the fields of \<^verbatim>\<open>config\<close>.  Returns the
  objects and the reference, or the error.
\<close>

definition baseGetInstance ::
  "(factory_config option \<Rightarrow> js_error option) \<Rightarrow> (factory_config \<Rightarrow> build_factory) \<Rightarrow>
   build_factory list \<Rightarrow> nat option \<Rightarrow> factory_config option \<Rightarrow>
   build_factory list \<times> (js_error + nat)" where
  "baseGetInstance missing classDef objs inst config =
     (case inst of
        Some r \<Rightarrow> (objs, Inr r)
      | None \<Rightarrow>
          (case missing config of
             Some e \<Rightarrow> (objs, Inl e)
           | None \<Rightarrow>
               (case config of
                  None \<Rightarrow> (objs, Inl (TypeError ''datastore''))
                | Some c \<Rightarrow> (objs @ [classDef c], Inr (length objs)))))"

text \<open>
  \<^verbatim>\<open>!config || !config.field\<close>, for a field holding an object (truthy whenever present)
  and for a field holding a string (falsy also when empty).
\<close>

definition lacksObject :: "factory_config option \<Rightarrow> (factory_config \<Rightarrow> handle option) \<Rightarrow> bool" where
  "lacksObject config field = (case config of None \<Rightarrow> True | Some c \<Rightarrow> field c = None)"

definition lacksString :: "factory_config option \<Rightarrow> (factory_config \<Rightarrow> string option) \<Rightarrow> bool" where
  "lacksString config field = (case config of None \<Rightarrow> True | Some c \<Rightarrow> \<not> truthy (field c))"

text \<open>
  \<^verbatim>\<open>static getInstance(config)\<close>: the three guards, then the assignment of
  \<^verbatim>\<open>BaseFactory.getInstance(BuildFactory, instance, config)\<close> to \<^verbatim>\<open>instance\<close>.  \<open>Inl\<close> is the
  exception thrown.
\<close>

definition getInstance ::
  "(factory_config option \<Rightarrow> js_error option) \<Rightarrow> module_state \<Rightarrow> factory_config option \<Rightarrow>
   module_state \<times> (js_error + nat)" where
  "getInstance missing st config =
     (if instance_var st = None \<and> lacksObject config executor
        then (st, Inl (Error ''No executor provided to BuildFactory''))
      else if instance_var st = None \<and> lacksString config uiUri
        then (st, Inl (Error ''No uiUri provided to BuildFactory''))
      else if instance_var st = None \<and> lacksObject config scmPlugin
        then (st, Inl (Error ''No scm plugin provided to BuildFactory''))
      else
        (case baseGetInstance missing constructor (objects st) (instance_var st) config of
           (objs, Inl e) \<Rightarrow> (st\<lparr>objects := objs\<rparr>, Inl e)
         | (objs, Inr r) \<Rightarrow> (\<lparr>instance_var = Some r, objects = objs\<rparr>, Inr r)))"

text \<open>A run of calls from a module state: the state afterwards and each call's result.\<close>

fun getInstances ::
  "(factory_config option \<Rightarrow> js_error option) \<Rightarrow> module_state \<Rightarrow> factory_config option list \<Rightarrow>
   module_state \<times> (js_error + nat) list" where
  "getInstances missing st [] = (st, [])"
| "getInstances missing st (c # cs) =
     (case getInstance missing st c of
        (st', r) \<Rightarrow> (case getInstances missing st' cs of (st'', rs) \<Rightarrow> (st'', r # rs)))"

section \<open>The entity record (lib/base.js)\<close>


record 'v base_model =
  table :: string
  keys :: "string list"
  snapshot :: "string \<rightharpoonup> 'v"
  current :: "string \<rightharpoonup> 'v"


text \<open>
  Modelled from the spec: a record is mutated by direct field assignment,
  \<^verbatim>\<open>record.k = v\<close>, which changes the current value and leaves the snapshot.
\<close>

definition assign :: "'v base_model \<Rightarrow> string \<Rightarrow> 'v \<Rightarrow> 'v base_model" where
  "assign r k v = r\<lparr>current := (current r)(k \<mapsto> v)\<rparr>"

text \<open>
  Modelled from the spec: \<^verbatim>\<open>isDirty(key)\<close> is true iff that field differs from the
  snapshot; \<^verbatim>\<open>isDirty()\<close> is true iff any declared field does.
\<close>

definition isDirtyKey :: "'v base_model \<Rightarrow> string \<Rightarrow> bool" where
  "isDirtyKey r k = (current r k \<noteq> snapshot r k)"

definition isDirty :: "'v base_model \<Rightarrow> bool" where
  "isDirty r = list_ex (isDirtyKey r) (keys r)"

text \<open>
  Modelled from the spec: the changed-field map, the dirty declared fields with their
  current values, in declared order.
\<close>

definition changedFields :: "'v base_model \<Rightarrow> (string \<times> 'v option) list" where
  "changedFields r = map (\<lambda>k. (k, current r k)) (filter (isDirtyKey r) (keys r))"

text \<open>The argument \<^verbatim>\<open>{table, params: {id, data}}\<close> of the datastore's update.\<close>

record 'v update_request =
  req_table :: string
  req_id :: "'v option"
  req_data :: "(string \<times> 'v option) list"

text \<open>
  Modelled from the spec: \<^verbatim>\<open>update()\<close>.  \<open>ds_update\<close> is the datastore's update
  operation.  The result is the list of datastore calls made, the settled promise, and
  the record as it is afterwards.
\<close>

definition update ::
  "('v update_request \<Rightarrow> 'r promise) \<Rightarrow> 'v base_model \<Rightarrow>
   'v update_request list \<times> 'v base_model promise \<times> 'v base_model" where
  "update ds_update r =
     (let data = changedFields r in
      if data = [] then ([], Inr r, r)
      else
        (let request = \<lparr>req_table = table r, req_id = current r ''id'', req_data = data\<rparr> in
         case ds_update request of
           Inl e \<Rightarrow> ([request], Inl e, r)
         | Inr _ \<Rightarrow> ([request], Inr (r\<lparr>snapshot := current r\<rparr>), r\<lparr>snapshot := current r\<rparr>)))"







section \<open>Example entities\<close>

text \<open>
  A job with two permutations, a user whose token unseals, and surroundings in which
  \<^verbatim>\<open>job1\<close> is that job, \<^verbatim>\<open>job2\<close> is the same job without a pipeline, \<^verbatim>\<open>job3\<close> is the same
  job without permutations, and \<^verbatim>\<open>me\<close> is the only user.
\<close>

definition exampleJob :: job where
  "exampleJob =
     \<lparr>pipeline = Inr (Some \<lparr>scmUrl = ''git@github.com:screwdriver-cd/models.git''\<rparr>),
      permutations = Some
        [\<lparr>image = ''node:8'',
          commands = [\<lparr>command.name = ''install''\<rparr>, \<lparr>command.name = ''test''\<rparr>]\<rparr>,
         \<lparr>image = ''node:6'', commands = [\<lparr>command.name = ''lint''\<rparr>]\<rparr>]\<rparr>"

definition exampleUser :: user where
  "exampleUser = \<lparr>unsealToken = Inr ''token''\<rparr>"

definition exampleEnv :: env where
  "exampleEnv =
     \<lparr>now = 1478000000123,
      toISOString = (\<lambda>n. ''2016-11-01T11:33:20.123Z''),
      jobFactoryInstance = Inr (\<lambda>i.
        Inr (if i = ''job1'' then Some exampleJob
             else if i = ''job2'' then Some (exampleJob\<lparr>pipeline := Inr None\<rparr>)
             else if i = ''job3'' then Some (exampleJob\<lparr>permutations := Some []\<rparr>)
             else None)),
      userFactoryInstance = Inr (\<lambda>u. Inr (if u = ''me'' then Some exampleUser else None)),
      pipelineSettlesFirst = False,
      scmGetCommitSha = (\<lambda>url token. Inr ''ccc49349d3cffbd12ea9e3d41521480b4aa5de5f''),
      superCreate = (\<lambda>mc. Inr (model_config.extend mc (build.fields ''b1''))),
      buildStart = (\<lambda>b. Inr b)\<rparr>"

definition exampleConfig :: create_config where
  "exampleConfig = \<lparr>jobId = ''job1'', username = ''me'', sha = Some ''abc123''\<rparr>"


text \<open>What \<^verbatim>\<open>create\<close> hands to \<^verbatim>\<open>super.create\<close> for that request, and the Build made of it.\<close>

definition exampleModelConfig :: model_config where
  "exampleModelConfig =
     (applyToDefaults exampleConfig ''Started by user me'' ''2016-11-01T11:33:20.123Z''
        1478000000123 ''QUEUED'')
     \<lparr>sha := Some ''abc123'', container := Some ''node:8'',
      steps := Some [\<lparr>step.name = ''sd-setup''\<rparr>, \<lparr>step.name = ''install''\<rparr>,
                     \<lparr>step.name = ''test''\<rparr>, \<lparr>step.name = ''sd-teardown''\<rparr>]\<rparr>"

definition exampleBuild :: build where
  "exampleBuild = model_config.extend exampleModelConfig (build.fields ''b1'')"

text \<open>
  A first call's configuration, and a base factory that asks for the datastore.
\<close>

definition exampleFactoryConfig :: factory_config where
  "exampleFactoryConfig =
     \<lparr>datastore = Some ''datastore'', executor = Some ''executor'',
      uiUri = Some ''https://display.com/some/endpoint'', scmPlugin = Some ''scm''\<rparr>"

definition exampleMissing :: "factory_config option \<Rightarrow> js_error option" where
  "exampleMissing config =
     (if lacksObject config datastore then Some (Error ''No datastore provided to BuildFactory'')
      else None)"


definition baseConfig :: "string \<rightharpoonup> string" where
  "baseConfig =
     [''datastore'' \<mapsto> ''datastore'', ''id'' \<mapsto> ''as12345'', ''foo'' \<mapsto> ''foo'',
      ''bar'' \<mapsto> ''bar'']"

definition base :: "string base_model" where
  "base =
     \<lparr>table = ''base'', keys = [''id'', ''foo'', ''bar''],
      snapshot = (\<lambda>k. if k \<in> set [''id'', ''foo'', ''bar''] then baseConfig k else None),
      current = (\<lambda>k. if k \<in> set [''id'', ''foo'', ''bar''] then baseConfig k else None)\<rparr>"

section \<open>The permutation index\<close>

lemma digitChar_ne_dot: "d < 10 \<Longrightarrow> digitChar d \<noteq> CHR ''.''"
proof -
  assume "d < 10"
  then have "d \<in> {0,1,2,3,4,5,6,7,8,9}" by auto
  then show ?thesis unfolding digitChar_def by auto
qed

lemma dot_notin_digitsOf: "CHR ''.'' \<notin> set (digitsOf n)"
proof (induction n rule: digitsOf.induct)
  case (1 n)
  show ?case
  proof (cases "n < 10")
    case True
    then show ?thesis using digitChar_ne_dot [of n] by (subst digitsOf.simps) simp
  next
    case False
    have "n mod 10 < 10" by simp
    then have "digitChar (n mod 10) \<noteq> CHR ''.''" by (rule digitChar_ne_dot)
    with False "1.IH" show ?thesis by (subst digitsOf.simps) auto
  qed
qed

lemma split_no_separator: "c \<notin> set s \<Longrightarrow> split c s = [s]"
  by (induction s) auto

lemma dot_notin_numberToString: "CHR ''.'' \<notin> set (numberToString n)"
  by (simp add: numberToString_def dot_notin_digitsOf)

lemma permutationIndex_zero: "permutationIndex n = IndexNumber 0"
  by (simp add: permutationIndex_def split_no_separator dot_notin_numberToString at_def)



section \<open>Calls made by create\<close>

lemma applyToDefaults_fields:
  "jobId (applyToDefaults config c t n s) = jobId config"
  "username (applyToDefaults config c t n s) = username config"
  "sha (applyToDefaults config c t n s) = sha config"
  "cause (applyToDefaults config c t n s) = c"
  "createTime (applyToDefaults config c t n s) = t"
  "number (applyToDefaults config c t n s) = n"
  "status (applyToDefaults config c t n s) = s"
  "container (applyToDefaults config c t n s) = None"
  "steps (applyToDefaults config c t n s) = None"
  by (simp_all add: applyToDefaults_def create_config.defs model_config.defs)

lemma lookupCommit_events:
  "set (fst (lookupCommit w evs u p)) \<subseteq> set evs \<union> {UnsealToken} \<union> range (\<lambda>(a, b). ScmGetCommitSha a b)"
  by (auto simp: lookupCommit_def split: option.splits sum.splits)

lemma lookupCommit_no_SuperCreate:
  "SuperCreate mc \<notin> set evs \<Longrightarrow> SuperCreate mc \<notin> set (fst (lookupCommit w evs u p))"
  using lookupCommit_events [of w evs u p] by auto

lemma lookupCommit_no_BuildStart:
  "BuildStart b \<notin> set evs \<Longrightarrow> BuildStart b \<notin> set (fst (lookupCommit w evs u p))"
  using lookupCommit_events [of w evs u p] by auto

lemma getCommitSha_no_SuperCreate: "SuperCreate mc \<notin> set (fst (getCommitSha w j m))"
  by (auto simp: getCommitSha_def fetchCommitSha_def Let_def lookupCommit_no_SuperCreate
      split: sum.splits prod.splits option.splits)

lemma getCommitSha_no_BuildStart: "BuildStart b \<notin> set (fst (getCommitSha w j m))"
  by (auto simp: getCommitSha_def fetchCommitSha_def Let_def lookupCommit_no_BuildStart
      split: sum.splits prod.splits option.splits)

lemma selectPermutation_Cons:
  "permutations j = Some (p # ps) \<Longrightarrow> selectPermutation j (IndexNumber 0) = Inr (Some p)"
  by (simp add: selectPermutation_def at_def)

lemma selectPermutation_Nil:
  "permutations j = Some [] \<Longrightarrow> selectPermutation j (IndexNumber 0) = Inr None"
  by (simp add: selectPermutation_def at_def)

lemma selectPermutation_None:
  "permutations j = None \<Longrightarrow> selectPermutation j (IndexNumber 0) = Inl (TypeError ''0'')"
  by (simp add: selectPermutation_def digitChar_def digitsOf.simps [of 0])

lemma persistAndStart_Cons:
  assumes "permutations j = Some (p # ps)"
  shows "persistAndStart w evs j m s =
    (case superCreate w (m\<lparr>sha := Some s, container := Some (image p), steps := Some (buildSteps p)\<rparr>) of
       Inl e \<Rightarrow> (evs @ [SuperCreate (m\<lparr>sha := Some s, container := Some (image p), steps := Some (buildSteps p)\<rparr>)], Rejects e)
     | Inr b \<Rightarrow> (evs @ [SuperCreate (m\<lparr>sha := Some s, container := Some (image p), steps := Some (buildSteps p)\<rparr>), BuildStart b],
                 (case buildStart w b of Inl e \<Rightarrow> Rejects e | Inr r \<Rightarrow> Resolves r)))"
  by (simp add: persistAndStart_def permutationIndex_zero selectPermutation_Cons [OF assms] Let_def)

lemma persistAndStart_Nil:
  "permutations j = Some [] \<Longrightarrow> persistAndStart w evs j m s = (evs, Rejects (TypeError ''image''))"
  by (simp add: persistAndStart_def permutationIndex_zero selectPermutation_Nil)

lemma persistAndStart_None:
  "permutations j = None \<Longrightarrow> persistAndStart w evs j m s = (evs, Rejects (TypeError ''0''))"
  by (simp add: persistAndStart_def permutationIndex_zero selectPermutation_None)

lemma persistAndStart_SuperCreate:
  assumes "SuperCreate mc \<in> set (fst (persistAndStart w evs j m s))"
    and "SuperCreate mc \<notin> set evs"
  shows "\<exists>p ps. permutations j = Some (p # ps) \<and>
           mc = m\<lparr>sha := Some s, container := Some (image p), steps := Some (buildSteps p)\<rparr>"
proof (cases "permutations j")
  case None
  with assms show ?thesis by (simp add: persistAndStart_None)
next
  case (Some perms)
  show ?thesis
  proof (cases perms)
    case Nil
    with Some assms show ?thesis by (simp add: persistAndStart_Nil)
  next
    case (Cons p ps)
    with Some have "permutations j = Some (p # ps)" by simp
    with assms show ?thesis
      by (auto simp: persistAndStart_Cons split: sum.splits)
  qed
qed


lemma create_SuperCreate:
  assumes "SuperCreate mc \<in> set (fst (create w config))"
  shows "\<exists>jf j evs s p ps.
           jobFactoryInstance w = Inr jf \<and> jf (jobId config) = Inr (Some j) \<and>
           getCommitSha w j (applyToDefaults config (''Started by user '' @ username config)
                               (toISOString w (now w)) (now w) ''QUEUED'') = (evs, Resolves s) \<and>
           permutations j = Some (p # ps) \<and>
           mc = (applyToDefaults config (''Started by user '' @ username config)
                  (toISOString w (now w)) (now w) ''QUEUED'')
                \<lparr>sha := Some s, container := Some (image p), steps := Some (buildSteps p)\<rparr>"
proof -
  let ?m = "applyToDefaults config (''Started by user '' @ username config)
              (toISOString w (now w)) (now w) ''QUEUED''"
  from assms obtain jf where jf: "jobFactoryInstance w = Inr jf"
    by (cases "jobFactoryInstance w") (auto simp: create_def Let_def)
  from assms jf obtain j where j: "jf (jobId config) = Inr (Some j)"
    by (cases "jf (jobId config)") (auto simp: create_def Let_def split: option.splits)
  obtain evs r where g: "getCommitSha w j ?m = (evs, r)"
    by (cases "getCommitSha w j ?m") auto
  have no: "SuperCreate mc \<notin> set (JobGet (jobId config) # evs)"
    using getCommitSha_no_SuperCreate [of mc w j ?m] g by simp
  from assms jf j g no obtain s where s: "r = Resolves s"
    by (cases r) (auto simp: create_def Let_def)
  from assms jf j g s
  have "SuperCreate mc \<in> set (fst (persistAndStart w (JobGet (jobId config) # evs) j ?m s))"
    by (simp add: create_def Let_def)
  from persistAndStart_SuperCreate [OF this no] jf j g s show ?thesis by blast
qed

lemma create_example:
  "create exampleEnv exampleConfig =
     ([JobGet ''job1'', SuperCreate exampleModelConfig, BuildStart exampleBuild],
      Resolves exampleBuild)"
  by (simp add: create_def Let_def exampleEnv_def exampleConfig_def exampleJob_def
      exampleModelConfig_def exampleBuild_def
      getCommitSha_def applyToDefaults_fields persistAndStart_Cons buildSteps_def)

subsection \<open>Successful calls\<close>

lemma getCommitSha_truthy:
  "sha m = Some s \<Longrightarrow> s \<noteq> [] \<Longrightarrow> getCommitSha w j m = ([], Resolves s)"
  by (simp add: getCommitSha_def)

lemma create_Resolves:
  assumes "create w config = (evs, Resolves b)"
  shows "\<exists>jf j evs0 s p ps mc b0.
           jobFactoryInstance w = Inr jf \<and> jf (jobId config) = Inr (Some j) \<and>
           getCommitSha w j (applyToDefaults config (''Started by user '' @ username config)
                               (toISOString w (now w)) (now w) ''QUEUED'') = (evs0, Resolves s) \<and>
           permutations j = Some (p # ps) \<and>
           mc = (applyToDefaults config (''Started by user '' @ username config)
                  (toISOString w (now w)) (now w) ''QUEUED'')
                \<lparr>sha := Some s, container := Some (image p), steps := Some (buildSteps p)\<rparr> \<and>
           superCreate w mc = Inr b0 \<and> buildStart w b0 = Inr b \<and>
           evs = JobGet (jobId config) # evs0 @ [SuperCreate mc, BuildStart b0]"
proof -
  let ?m = "applyToDefaults config (''Started by user '' @ username config)
              (toISOString w (now w)) (now w) ''QUEUED''"
  from assms obtain jf where jf: "jobFactoryInstance w = Inr jf"
    by (cases "jobFactoryInstance w") (auto simp: create_def Let_def)
  from assms jf obtain j where j: "jf (jobId config) = Inr (Some j)"
    by (cases "jf (jobId config)") (auto simp: create_def Let_def split: option.splits)
  obtain evs0 r where g: "getCommitSha w j ?m = (evs0, r)"
    by (cases "getCommitSha w j ?m") auto
  from assms jf j g obtain s where s: "r = Resolves s"
    by (cases r) (auto simp: create_def Let_def)
  from assms jf j g s
  have ps: "persistAndStart w (JobGet (jobId config) # evs0) j ?m s = (evs, Resolves b)"
    by (simp add: create_def Let_def)
  show ?thesis
  proof (cases "permutations j")
    case None
    with ps show ?thesis by (simp add: persistAndStart_None)
  next
    case (Some perms)
    show ?thesis
    proof (cases perms)
      case Nil
      with Some ps show ?thesis by (simp add: persistAndStart_Nil)
    next
      case (Cons p rest)
      with Some have perm: "permutations j = Some (p # rest)" by simp
      let ?mc = "?m\<lparr>sha := Some s, container := Some (image p), steps := Some (buildSteps p)\<rparr>"
      from ps perm obtain b0 where b0: "superCreate w ?mc = Inr b0"
        by (cases "superCreate w ?mc") (auto simp: persistAndStart_Cons)
      from ps perm b0 have st: "buildStart w b0 = Inr b"
        by (cases "buildStart w b0") (auto simp: persistAndStart_Cons)
      from ps perm b0 have "evs = JobGet (jobId config) # evs0 @ [SuperCreate ?mc, BuildStart b0]"
        by (auto simp: persistAndStart_Cons)
      with jf j g s perm b0 st show ?thesis by blast
    qed
  qed
qed

lemma buildSteps_names:
  "map step.name (buildSteps p) = ''sd-setup'' # map command.name (commands p) @ [''sd-teardown'']"
  by (simp add: buildSteps_def comp_def)

lemma buildSteps_length: "length (buildSteps p) = length (commands p) + 2"
  by (simp add: buildSteps_def)

lemma buildSteps_hd: "hd (buildSteps p) = \<lparr>step.name = ''sd-setup''\<rparr>"
  by (simp add: buildSteps_def)

lemma buildSteps_last: "last (buildSteps p) = \<lparr>step.name = ''sd-teardown''\<rparr>"
  by (simp add: buildSteps_def)

lemma buildSteps_middle:
  "i < length (commands p) \<Longrightarrow> step.name (buildSteps p ! Suc i) = command.name (commands p ! i)"
  by (simp add: buildSteps_def nth_append)


subsection \<open>Jobs without a permutation\<close>

lemma create_no_permutation:
  assumes "jobFactoryInstance w = Inr jf" and "jf (jobId config) = Inr (Some j)"
    and "getCommitSha w j (applyToDefaults config (''Started by user '' @ username config)
           (toISOString w (now w)) (now w) ''QUEUED'') = (evs, Resolves s)"
  shows "permutations j = None \<Longrightarrow>
           create w config = (JobGet (jobId config) # evs, Rejects (TypeError ''0''))"
    and "permutations j = Some [] \<Longrightarrow>
           create w config = (JobGet (jobId config) # evs, Rejects (TypeError ''image''))"
  using assms by (simp_all add: create_def Let_def persistAndStart_None persistAndStart_Nil)


subsection \<open>Not-found rejections\<close>

lemma create_job_missing:
  "jobFactoryInstance w = Inr jf \<Longrightarrow> jf (jobId config) = Inr None \<Longrightarrow>
     create w config = ([JobGet (jobId config)], Rejects (Error ''Job does not exist''))"
  by (simp add: create_def Let_def)

lemma getCommitSha_user_missing:
  "\<not> truthy (sha m) \<Longrightarrow> userFactoryInstance w = Inr uf \<Longrightarrow> uf (username m) = Inr None \<Longrightarrow>
   pipeline j = Inr pl \<Longrightarrow>
     getCommitSha w j m =
       ([UserGet (username m), PipelineGet], Rejects (Error ''User does not exist''))"
  by (cases "sha m") (simp_all add: getCommitSha_def fetchCommitSha_def lookupCommit_def)

lemma getCommitSha_pipeline_missing:
  "\<not> truthy (sha m) \<Longrightarrow> userFactoryInstance w = Inr uf \<Longrightarrow> uf (username m) = Inr (Some u) \<Longrightarrow>
   pipeline j = Inr None \<Longrightarrow>
     getCommitSha w j m =
       ([UserGet (username m), PipelineGet], Rejects (Error ''Pipeline does not exist''))"
  by (cases "sha m") (simp_all add: getCommitSha_def fetchCommitSha_def lookupCommit_def)

lemma create_getCommitSha_Rejects:
  "jobFactoryInstance w = Inr jf \<Longrightarrow> jf (jobId config) = Inr (Some j) \<Longrightarrow>
   getCommitSha w j (applyToDefaults config (''Started by user '' @ username config)
      (toISOString w (now w)) (now w) ''QUEUED'') = (evs, Rejects e) \<Longrightarrow>
     create w config = (JobGet (jobId config) # evs, Rejects e)"
  by (simp add: create_def Let_def)


subsection \<open>A supplied sha\<close>

lemma persistAndStart_events:
  "set (fst (persistAndStart w evs j m s)) \<subseteq> set evs \<union> range SuperCreate \<union> range BuildStart"
  by (auto simp: persistAndStart_def Let_def split: sum.splits option.splits)

lemma create_truthy_events:
  assumes "sha config = Some s" and "s \<noteq> []"
  shows "set (fst (create w config)) \<subseteq>
           {JobGet (jobId config)} \<union> range SuperCreate \<union> range BuildStart"
proof -
  let ?m = "applyToDefaults config (''Started by user '' @ username config)
      (toISOString w (now w)) (now w) ''QUEUED''"
  have g: "\<And>j. getCommitSha w j ?m = ([], Resolves s)"
    using assms by (intro getCommitSha_truthy) (simp_all add: applyToDefaults_fields)
  show ?thesis
  proof (cases "jobFactoryInstance w")
    case (Inl e)
    then show ?thesis by (simp add: create_def Let_def)
  next
    case (Inr jf)
    show ?thesis
    proof (cases "jf (jobId config)")
      case (Inl e)
      with Inr show ?thesis by (simp add: create_def Let_def)
    next
      case jr: (Inr jo)
      show ?thesis
      proof (cases jo)
        case None
        with Inr jr show ?thesis by (simp add: create_def Let_def)
      next
        case (Some j)
        with Inr jr g [of j]
        have "create w config = persistAndStart w [JobGet (jobId config)] j ?m s"
          by (simp add: create_def Let_def)
        with persistAndStart_events [of w "[JobGet (jobId config)]" j ?m s]
        show ?thesis by simp
      qed
    qed
  qed
qed


section \<open>Claims about BuildFactory.create\<close>

text \<open>
  Claim C9.  The permutation index derived from the creation timestamp is always the
  number 0, whatever the timestamp: the decimal rendering of an integer has no
  \<^verbatim>\<open>'.'\<close>, so \<^verbatim>\<open>split('.')[1]\<close> is undefined and the fallback is taken.  Hence whenever
  \<^verbatim>\<open>create\<close> reaches \<^verbatim>\<open>super.create\<close>, the container and the steps it hands over come from
  element 0 of the job's permutations.
\<close>

theorem permutation_index_always_zero:
  "permutationIndex n = IndexNumber 0 \<and>
   (SuperCreate mc \<in> set (fst (create w config)) \<longrightarrow>
      (\<exists>jf j ps p. jobFactoryInstance w = Inr jf \<and> jf (jobId config) = Inr (Some j) \<and>
         permutations j = Some ps \<and> at ps 0 = Some p \<and>
         container mc = Some (image p) \<and> steps mc = Some (buildSteps p)))"
proof (intro conjI impI)
  show "permutationIndex n = IndexNumber 0" by (rule permutationIndex_zero)
next
  assume "SuperCreate mc \<in> set (fst (create w config))"
  from create_SuperCreate [OF this] obtain jf j s p ps where
    "jobFactoryInstance w = Inr jf" "jf (jobId config) = Inr (Some j)"
    "permutations j = Some (p # ps)"
    "mc = (applyToDefaults config (''Started by user '' @ username config)
            (toISOString w (now w)) (now w) ''QUEUED'')
          \<lparr>sha := Some s, container := Some (image p), steps := Some (buildSteps p)\<rparr>"
    by blast
  then show "\<exists>jf j ps p. jobFactoryInstance w = Inr jf \<and> jf (jobId config) = Inr (Some j) \<and>
         permutations j = Some ps \<and> at ps 0 = Some p \<and>
         container mc = Some (image p) \<and> steps mc = Some (buildSteps p)"
    by (simp add: at_def)
qed

theorem permutation_index_always_zero_witness:
  "permutationIndex 1478000000123 = IndexNumber 0 \<and>
   SuperCreate exampleModelConfig \<in> set (fst (create exampleEnv exampleConfig)) \<and>
   (\<exists>jf j ps p. jobFactoryInstance exampleEnv = Inr jf \<and>
      jf (jobId exampleConfig) = Inr (Some j) \<and>
      permutations j = Some ps \<and> at ps 0 = Some p \<and> length ps = 2 \<and>
      container exampleModelConfig = Some (image p) \<and>
      steps exampleModelConfig = Some (buildSteps p))"
proof -
  have ev: "SuperCreate exampleModelConfig \<in> set (fst (create exampleEnv exampleConfig))"
    by (simp add: create_example)
  from permutation_index_always_zero [of 1478000000123 exampleModelConfig exampleEnv exampleConfig] ev
  obtain jf j ps p where h: "jobFactoryInstance exampleEnv = Inr jf"
      "jf (jobId exampleConfig) = Inr (Some j)" "permutations j = Some ps" "at ps 0 = Some p"
      "container exampleModelConfig = Some (image p)"
      "steps exampleModelConfig = Some (buildSteps p)"
    by blast
  from h(1,2,3) have "length ps = 2"
    by (auto simp: exampleEnv_def exampleConfig_def exampleJob_def)
  with h ev permutation_index_always_zero [of 1478000000123 exampleModelConfig exampleEnv exampleConfig]
  show ?thesis by blast
qed

text \<open>
  Claim C1.  When \<^verbatim>\<open>create\<close> succeeds, the job has a permutation at index 0 and exactly
  one model config was handed to \<^verbatim>\<open>super.create\<close>, from which the Build is made.  Its step
  list has two more elements than the permutation has commands: it starts with
  \<^verbatim>\<open>sd-setup\<close>, ends with \<^verbatim>\<open>sd-teardown\<close>, and in between carries the command names one
  to one and in order; its container is the permutation's image, its status is
  \<^verbatim>\<open>QUEUED\<close>, and a supplied (truthy) sha is kept.  For image \<^verbatim>\<open>node:8\<close>, commands
  \<^verbatim>\<open>install\<close> and \<^verbatim>\<open>test\<close> and sha \<^verbatim>\<open>abc123\<close> the steps are \<^verbatim>\<open>sd-setup\<close>, \<^verbatim>\<open>install\<close>,
  \<^verbatim>\<open>test\<close>, \<^verbatim>\<open>sd-teardown\<close>, the container is \<^verbatim>\<open>node:8\<close> and the sha is \<^verbatim>\<open>abc123\<close>.
\<close>

theorem create_build_steps:
  assumes "create w config = (evs, Resolves b)"
  shows "\<exists>jf j ps p mc st.
           jobFactoryInstance w = Inr jf \<and> jf (jobId config) = Inr (Some j) \<and>
           permutations j = Some ps \<and> at ps 0 = Some p \<and>
           SuperCreate mc \<in> set evs \<and> (\<forall>mc'. SuperCreate mc' \<in> set evs \<longrightarrow> mc' = mc) \<and>
           steps mc = Some st \<and>
           length st = length (commands p) + 2 \<and>
           hd st = \<lparr>step.name = ''sd-setup''\<rparr> \<and>
           last st = \<lparr>step.name = ''sd-teardown''\<rparr> \<and>
           (\<forall>i < length (commands p). step.name (st ! Suc i) = command.name (commands p ! i)) \<and>
           map step.name st = ''sd-setup'' # map command.name (commands p) @ [''sd-teardown''] \<and>
           container mc = Some (image p) \<and>
           status mc = ''QUEUED'' \<and>
           (truthy (sha config) \<longrightarrow> sha mc = sha config) \<and>
           (image p = ''node:8'' \<and> map command.name (commands p) = [''install'', ''test''] \<and>
            sha config = Some ''abc123'' \<longrightarrow>
              map step.name st = [''sd-setup'', ''install'', ''test'', ''sd-teardown''] \<and>
              container mc = Some ''node:8'' \<and> sha mc = Some ''abc123'' \<and>
              status mc = ''QUEUED'')"
proof -
  let ?m = "applyToDefaults config (''Started by user '' @ username config)
              (toISOString w (now w)) (now w) ''QUEUED''"
  from create_Resolves [OF assms] obtain jf j evs0 s p ps mc b0 where
    jf: "jobFactoryInstance w = Inr jf" and j: "jf (jobId config) = Inr (Some j)" and
    g: "getCommitSha w j ?m = (evs0, Resolves s)" and
    perm: "permutations j = Some (p # ps)" and
    mc: "mc = ?m\<lparr>sha := Some s, container := Some (image p), steps := Some (buildSteps p)\<rparr>" and
    evs: "evs = JobGet (jobId config) # evs0 @ [SuperCreate mc, BuildStart b0]"
    by blast
  have at0: "at (p # ps) 0 = Some p" by (simp add: at_def)
  have mem: "SuperCreate mc \<in> set evs" using evs by simp
  have uniq: "\<forall>mc'. SuperCreate mc' \<in> set evs \<longrightarrow> mc' = mc"
    using evs getCommitSha_no_SuperCreate [of _ w j ?m] g by auto
  have st: "steps mc = Some (buildSteps p)" using mc by simp
  have cont: "container mc = Some (image p)" using mc by simp
  have stat: "status mc = ''QUEUED''" using mc by (simp add: applyToDefaults_fields)
  have shaT: "truthy (sha config) \<longrightarrow> sha mc = sha config"
  proof
    assume "truthy (sha config)"
    then obtain s' where s': "sha config = Some s'" "s' \<noteq> []"
      by (cases "sha config") auto
    then have "getCommitSha w j ?m = ([], Resolves s')"
      by (intro getCommitSha_truthy) (simp_all add: applyToDefaults_fields)
    with g have "s = s'" by simp
    with mc s' show "sha mc = sha config" by simp
  qed
  have conc: "image p = ''node:8'' \<and> map command.name (commands p) = [''install'', ''test''] \<and>
            sha config = Some ''abc123'' \<longrightarrow>
              map step.name (buildSteps p) = [''sd-setup'', ''install'', ''test'', ''sd-teardown''] \<and>
              container mc = Some ''node:8'' \<and> sha mc = Some ''abc123'' \<and>
              status mc = ''QUEUED''"
    using shaT cont stat by (auto simp: buildSteps_names)
  have mid: "\<forall>i < length (commands p). step.name (buildSteps p ! Suc i) = command.name (commands p ! i)"
    by (simp add: buildSteps_middle)
  have perm': "permutations j = Some (p # ps) \<and> at (p # ps) 0 = Some p"
    using perm at0 by simp
  have body: "jobFactoryInstance w = Inr jf \<and> jf (jobId config) = Inr (Some j) \<and>
           permutations j = Some (p # ps) \<and> at (p # ps) 0 = Some p \<and>
           SuperCreate mc \<in> set evs \<and> (\<forall>mc'. SuperCreate mc' \<in> set evs \<longrightarrow> mc' = mc) \<and>
           steps mc = Some (buildSteps p) \<and>
           length (buildSteps p) = length (commands p) + 2 \<and>
           hd (buildSteps p) = \<lparr>step.name = ''sd-setup''\<rparr> \<and>
           last (buildSteps p) = \<lparr>step.name = ''sd-teardown''\<rparr> \<and>
           (\<forall>i < length (commands p). step.name (buildSteps p ! Suc i) = command.name (commands p ! i)) \<and>
           map step.name (buildSteps p) = ''sd-setup'' # map command.name (commands p) @ [''sd-teardown''] \<and>
           container mc = Some (image p) \<and>
           status mc = ''QUEUED'' \<and>
           (truthy (sha config) \<longrightarrow> sha mc = sha config) \<and>
           (image p = ''node:8'' \<and> map command.name (commands p) = [''install'', ''test''] \<and>
            sha config = Some ''abc123'' \<longrightarrow>
              map step.name (buildSteps p) = [''sd-setup'', ''install'', ''test'', ''sd-teardown''] \<and>
              container mc = Some ''node:8'' \<and> sha mc = Some ''abc123'' \<and>
              status mc = ''QUEUED'')"
    using jf j perm' mem uniq st buildSteps_length [of p] buildSteps_hd [of p]
      buildSteps_last [of p] mid buildSteps_names [of p] cont stat shaT conc
    by (intro conjI) (assumption | erule conjunct1 | erule conjunct2)+
  show ?thesis
    by (rule exI [of _ jf], rule exI [of _ j], rule exI [of _ "p # ps"], rule exI [of _ p],
        rule exI [of _ mc], rule exI [of _ "buildSteps p"]) (rule body)
qed


theorem create_build_steps_witness:
  "create exampleEnv exampleConfig =
     ([JobGet ''job1'', SuperCreate exampleModelConfig, BuildStart exampleBuild],
      Resolves exampleBuild) \<and>
   (\<exists>mc st. SuperCreate mc \<in> set [JobGet ''job1'', SuperCreate exampleModelConfig,
                                        BuildStart exampleBuild] \<and>
      steps mc = Some st \<and> length st = 2 + 2 \<and>
      map step.name st = [''sd-setup'', ''install'', ''test'', ''sd-teardown''] \<and>
      container mc = Some ''node:8'' \<and> sha mc = Some ''abc123'' \<and> status mc = ''QUEUED'')"
proof -
  from create_build_steps [OF create_example]
  obtain jf j ps p mc st where
    jf: "jobFactoryInstance exampleEnv = Inr jf" and j: "jf (jobId exampleConfig) = Inr (Some j)" and
    ps: "permutations j = Some ps" and p: "at ps 0 = Some p" and
    mem: "SuperCreate mc \<in> set [JobGet ''job1'', SuperCreate exampleModelConfig,
                                  BuildStart exampleBuild]" and
    st: "steps mc = Some st" and len: "length st = length (commands p) + 2" and
    conc: "image p = ''node:8'' \<and> map command.name (commands p) = [''install'', ''test''] \<and>
            sha exampleConfig = Some ''abc123'' \<longrightarrow>
              map step.name st = [''sd-setup'', ''install'', ''test'', ''sd-teardown''] \<and>
              container mc = Some ''node:8'' \<and> sha mc = Some ''abc123'' \<and>
              status mc = ''QUEUED''"
    by (elim exE conjE) (rule that; assumption)
  from jf j have "j = exampleJob"
    by (auto simp: exampleEnv_def exampleConfig_def)
  with ps p have p': "image p = ''node:8'' \<and> map command.name (commands p) = [''install'', ''test'']"
    by (auto simp: exampleJob_def at_def)
  then have "length (commands p) = 2"
    by (metis length_map length_Cons list.size(3) numeral_2_eq_2)
  with len have len': "length st = 2 + 2" by simp
  have "sha exampleConfig = Some ''abc123''" by (simp add: exampleConfig_def)
  with conc p' have "map step.name st = [''sd-setup'', ''install'', ''test'', ''sd-teardown''] \<and>
              container mc = Some ''node:8'' \<and> sha mc = Some ''abc123'' \<and>
              status mc = ''QUEUED''" by blast
  with mem st len' have "\<exists>mc st. SuperCreate mc \<in> set [JobGet ''job1'', SuperCreate exampleModelConfig,
                                        BuildStart exampleBuild] \<and>
      steps mc = Some st \<and> length st = 2 + 2 \<and>
      map step.name st = [''sd-setup'', ''install'', ''test'', ''sd-teardown''] \<and>
      container mc = Some ''node:8'' \<and> sha mc = Some ''abc123'' \<and> status mc = ''QUEUED''"
    by (intro exI [of _ mc] exI [of _ st]) simp
  with create_example show ?thesis by (rule conjI)
qed

text \<open>
  Claim C7.  When \<^verbatim>\<open>create\<close> succeeds, the one model config handed to \<^verbatim>\<open>super.create\<close>
  for persistence has status \<^verbatim>\<open>QUEUED\<close>, cause \<^verbatim>\<open>Started by user\<close> followed by the given
  username, as number the timestamp read at the start of the call, and as createTime the
  ISO rendering of that number.
\<close>

theorem create_persisted_fields:
  assumes "create w config = (evs, Resolves b)"
  shows "\<exists>mc. SuperCreate mc \<in> set evs \<and>
           (\<forall>mc'. SuperCreate mc' \<in> set evs \<longrightarrow> mc' = mc) \<and>
           status mc = ''QUEUED'' \<and>
           cause mc = ''Started by user '' @ username config \<and>
           number mc = now w \<and>
           createTime mc = toISOString w (number mc)"
proof -
  let ?m = "applyToDefaults config (''Started by user '' @ username config)
              (toISOString w (now w)) (now w) ''QUEUED''"
  from create_Resolves [OF assms] obtain j evs0 s p mc b0 where
    g: "getCommitSha w j ?m = (evs0, Resolves s)" and
    mc: "mc = ?m\<lparr>sha := Some s, container := Some (image p), steps := Some (buildSteps p)\<rparr>" and
    evs: "evs = JobGet (jobId config) # evs0 @ [SuperCreate mc, BuildStart b0]"
    by blast
  have mem: "SuperCreate mc \<in> set evs" using evs by simp
  have uniq: "\<forall>mc'. SuperCreate mc' \<in> set evs \<longrightarrow> mc' = mc"
    using evs getCommitSha_no_SuperCreate [of _ w j ?m] g by auto
  have "status mc = ''QUEUED''" "cause mc = ''Started by user '' @ username config"
    "number mc = now w" "createTime mc = toISOString w (number mc)"
    using mc by (simp_all add: applyToDefaults_fields)
  with mem uniq show ?thesis by blast
qed

theorem create_persisted_fields_witness:
  "create exampleEnv exampleConfig =
     ([JobGet ''job1'', SuperCreate exampleModelConfig, BuildStart exampleBuild],
      Resolves exampleBuild) \<and>
   status exampleModelConfig = ''QUEUED'' \<and>
   cause exampleModelConfig = ''Started by user me'' \<and>
   number exampleModelConfig = 1478000000123 \<and>
   createTime exampleModelConfig = ''2016-11-01T11:33:20.123Z''"
proof -
  from create_persisted_fields [OF create_example]
  obtain mc where mem: "SuperCreate mc \<in> set [JobGet ''job1'', SuperCreate exampleModelConfig,
                                  BuildStart exampleBuild]" and
    f: "status mc = ''QUEUED''" "cause mc = ''Started by user '' @ username exampleConfig"
       "number mc = now exampleEnv" "createTime mc = toISOString exampleEnv (number mc)"
    by (elim exE conjE) (rule that; assumption)
  from mem have "mc = exampleModelConfig" by simp
  with f create_example show ?thesis
    by (simp add: exampleConfig_def exampleEnv_def)
qed

text \<open>
  Claim C10.  \<^verbatim>\<open>create\<close> needs a job with at least one permutation.  When the job is
  found and the sha is resolved but \<^verbatim>\<open>job.permutations\<close> is missing or empty, reading the
  selected permutation fails: \<^verbatim>\<open>create\<close> rejects with a TypeError, not with a not-found
  error, and neither \<^verbatim>\<open>super.create\<close> nor \<^verbatim>\<open>start\<close> is called.  Conversely, whenever
  \<^verbatim>\<open>create\<close> reaches \<^verbatim>\<open>super.create\<close>, the job has a first permutation.
\<close>

theorem create_needs_permutation:
  "(jobFactoryInstance w = Inr jf \<and> jf (jobId config) = Inr (Some j) \<and>
    getCommitSha w j (applyToDefaults config (''Started by user '' @ username config)
      (toISOString w (now w)) (now w) ''QUEUED'') = (evs, Resolves s) \<and>
    (permutations j = None \<or> permutations j = Some []) \<longrightarrow>
      (\<exists>p. create w config = (JobGet (jobId config) # evs, Rejects (TypeError p))) \<and>
      (\<forall>mc. SuperCreate mc \<notin> set (fst (create w config))) \<and>
      (\<forall>b. BuildStart b \<notin> set (fst (create w config)))) \<and>
   (SuperCreate mc \<in> set (fst (create w config)) \<longrightarrow>
      (\<exists>jf j p ps. jobFactoryInstance w = Inr jf \<and> jf (jobId config) = Inr (Some j) \<and>
         permutations j = Some (p # ps)))"
proof (intro conjI impI)
  let ?m = "applyToDefaults config (''Started by user '' @ username config)
      (toISOString w (now w)) (now w) ''QUEUED''"
  assume a: "jobFactoryInstance w = Inr jf \<and> jf (jobId config) = Inr (Some j) \<and>
    getCommitSha w j ?m = (evs, Resolves s) \<and>
    (permutations j = None \<or> permutations j = Some [])"
  then have g: "getCommitSha w j ?m = (evs, Resolves s)" by simp
  from a create_no_permutation [of w jf config j evs s]
  have c: "create w config = (JobGet (jobId config) # evs, Rejects (TypeError ''0'')) \<or>
           create w config = (JobGet (jobId config) # evs, Rejects (TypeError ''image''))"
    by blast
  then show "\<exists>p. create w config = (JobGet (jobId config) # evs, Rejects (TypeError p))"
    by blast
  from c have f: "fst (create w config) = JobGet (jobId config) # evs" by auto
  show "\<forall>mc. SuperCreate mc \<notin> set (fst (create w config))"
    using f g getCommitSha_no_SuperCreate [of _ w j ?m] by simp
  show "\<forall>b. BuildStart b \<notin> set (fst (create w config))"
    using f g getCommitSha_no_BuildStart [of _ w j ?m] by simp
next
  assume "SuperCreate mc \<in> set (fst (create w config))"
  from create_SuperCreate [OF this]
  show "\<exists>jf j p ps. jobFactoryInstance w = Inr jf \<and> jf (jobId config) = Inr (Some j) \<and>
         permutations j = Some (p # ps)"
    by blast
qed

lemma create_example_job3:
  "create exampleEnv (exampleConfig\<lparr>jobId := ''job3''\<rparr>) =
     ([JobGet ''job3''], Rejects (TypeError ''image''))"
  by (simp add: create_def Let_def exampleEnv_def exampleConfig_def exampleJob_def
      getCommitSha_def applyToDefaults_fields persistAndStart_Nil)

theorem create_needs_permutation_witness:
  "jobFactoryInstance exampleEnv =
     Inr (\<lambda>i. Inr (if i = ''job1'' then Some exampleJob
             else if i = ''job2'' then Some (exampleJob\<lparr>pipeline := Inr None\<rparr>)
             else if i = ''job3'' then Some (exampleJob\<lparr>permutations := Some []\<rparr>)
             else None)) \<and>
   permutations (exampleJob\<lparr>permutations := Some []\<rparr>) = Some [] \<and>
   create exampleEnv (exampleConfig\<lparr>jobId := ''job3''\<rparr>) =
     ([JobGet ''job3''], Rejects (TypeError ''image'')) \<and>
   (\<forall>mc. SuperCreate mc \<notin> set (fst (create exampleEnv (exampleConfig\<lparr>jobId := ''job3''\<rparr>)))) \<and>
   SuperCreate exampleModelConfig \<in> set (fst (create exampleEnv exampleConfig)) \<and>
   (\<exists>jf j p ps. jobFactoryInstance exampleEnv = Inr jf \<and>
      jf (jobId exampleConfig) = Inr (Some j) \<and> permutations j = Some (p # ps))"
proof -
  let ?jf = "\<lambda>i. Inr (if i = ''job1'' then Some exampleJob
             else if i = ''job2'' then Some (exampleJob\<lparr>pipeline := Inr None\<rparr>)
             else if i = ''job3'' then Some (exampleJob\<lparr>permutations := Some []\<rparr>)
             else None)"
  let ?c = "exampleConfig\<lparr>jobId := ''job3''\<rparr>"
  have jf: "jobFactoryInstance exampleEnv = Inr ?jf" by (simp add: exampleEnv_def)
  have j: "?jf (jobId ?c) = Inr (Some (exampleJob\<lparr>permutations := Some []\<rparr>))" by simp
  have g: "getCommitSha exampleEnv (exampleJob\<lparr>permutations := Some []\<rparr>)
             (applyToDefaults ?c (''Started by user '' @ username ?c)
               (toISOString exampleEnv (now exampleEnv)) (now exampleEnv) ''QUEUED'')
           = ([], Resolves ''abc123'')"
    by (simp add: getCommitSha_def applyToDefaults_fields exampleConfig_def)
  have p: "permutations (exampleJob\<lparr>permutations := Some []\<rparr>) = Some []" by simp
  have ev: "SuperCreate exampleModelConfig \<in> set (fst (create exampleEnv exampleConfig))"
    by (simp add: create_example)
  note t1 = create_needs_permutation [of exampleEnv ?jf ?c "exampleJob\<lparr>permutations := Some []\<rparr>" "[]" "''abc123''", THEN conjunct1]
  note t2 = create_needs_permutation [of exampleEnv _ exampleConfig _ _ _ exampleModelConfig, THEN conjunct2]
  from t1 jf j g p have "\<forall>mc. SuperCreate mc \<notin> set (fst (create exampleEnv ?c))" by blast
  moreover from t2 ev have "\<exists>jf j p ps. jobFactoryInstance exampleEnv = Inr jf \<and>
      jf (jobId exampleConfig) = Inr (Some j) \<and> permutations j = Some (p # ps)" by blast
  ultimately show ?thesis using jf p ev create_example_job3 by (intro conjI)
qed

text \<open>
  Claim C2, as amended.  If the job fetched by \<^verbatim>\<open>jobId\<close> is absent, \<^verbatim>\<open>create\<close> rejects
  with \<^verbatim>\<open>Job does not exist\<close>.  If the job exists, no truthy sha was given, the user
  lookup resolves with no user and the pipeline lookup is not rejected, it rejects with
  \<^verbatim>\<open>User does not exist\<close>.  If the job exists, no truthy sha was given, the user lookup
  resolves with a user and the pipeline lookup resolves with no pipeline, it rejects with
  \<^verbatim>\<open>Pipeline does not exist\<close>.  In each case \<^verbatim>\<open>super.create\<close> has not been called: the
  calls made are exactly the lookups listed.
\<close>

theorem create_not_found:
  "(jobFactoryInstance w = Inr jf \<and> jf (jobId config) = Inr None \<longrightarrow>
      create w config = ([JobGet (jobId config)], Rejects (Error ''Job does not exist''))) \<and>
   (jobFactoryInstance w = Inr jf \<and> jf (jobId config) = Inr (Some j) \<and>
    \<not> truthy (sha config) \<and> userFactoryInstance w = Inr uf \<and>
    uf (username config) = Inr None \<and> pipeline j = Inr pl \<longrightarrow>
      create w config =
        ([JobGet (jobId config), UserGet (username config), PipelineGet],
         Rejects (Error ''User does not exist''))) \<and>
   (jobFactoryInstance w = Inr jf \<and> jf (jobId config) = Inr (Some j) \<and>
    \<not> truthy (sha config) \<and> userFactoryInstance w = Inr uf \<and>
    uf (username config) = Inr (Some u) \<and> pipeline j = Inr None \<longrightarrow>
      create w config =
        ([JobGet (jobId config), UserGet (username config), PipelineGet],
         Rejects (Error ''Pipeline does not exist'')))"
proof (intro conjI impI)
  assume "jobFactoryInstance w = Inr jf \<and> jf (jobId config) = Inr None"
  then show "create w config = ([JobGet (jobId config)], Rejects (Error ''Job does not exist''))"
    by (simp add: create_job_missing)
next
  let ?m = "applyToDefaults config (''Started by user '' @ username config)
      (toISOString w (now w)) (now w) ''QUEUED''"
  assume a: "jobFactoryInstance w = Inr jf \<and> jf (jobId config) = Inr (Some j) \<and>
    \<not> truthy (sha config) \<and> userFactoryInstance w = Inr uf \<and>
    uf (username config) = Inr None \<and> pipeline j = Inr pl"
  then have "getCommitSha w j ?m =
       ([UserGet (username ?m), PipelineGet], Rejects (Error ''User does not exist''))"
    by (intro getCommitSha_user_missing [of ?m w uf j pl]) (simp_all add: applyToDefaults_fields)
  with a show "create w config =
        ([JobGet (jobId config), UserGet (username config), PipelineGet],
         Rejects (Error ''User does not exist''))"
    by (simp add: create_getCommitSha_Rejects applyToDefaults_fields)
next
  let ?m = "applyToDefaults config (''Started by user '' @ username config)
      (toISOString w (now w)) (now w) ''QUEUED''"
  assume a: "jobFactoryInstance w = Inr jf \<and> jf (jobId config) = Inr (Some j) \<and>
    \<not> truthy (sha config) \<and> userFactoryInstance w = Inr uf \<and>
    uf (username config) = Inr (Some u) \<and> pipeline j = Inr None"
  then have "getCommitSha w j ?m =
       ([UserGet (username ?m), PipelineGet], Rejects (Error ''Pipeline does not exist''))"
    by (intro getCommitSha_pipeline_missing [of ?m w uf u j]) (simp_all add: applyToDefaults_fields)
  with a show "create w config =
        ([JobGet (jobId config), UserGet (username config), PipelineGet],
         Rejects (Error ''Pipeline does not exist''))"
    by (simp add: create_getCommitSha_Rejects applyToDefaults_fields)
qed

theorem create_not_found_witness:
  "create exampleEnv \<lparr>jobId = ''job9'', username = ''me'', sha = None\<rparr> =
     ([JobGet ''job9''], Rejects (Error ''Job does not exist'')) \<and>
   create exampleEnv \<lparr>jobId = ''job1'', username = ''nobody'', sha = None\<rparr> =
     ([JobGet ''job1'', UserGet ''nobody'', PipelineGet],
      Rejects (Error ''User does not exist'')) \<and>
   create exampleEnv \<lparr>jobId = ''job2'', username = ''me'', sha = None\<rparr> =
     ([JobGet ''job2'', UserGet ''me'', PipelineGet],
      Rejects (Error ''Pipeline does not exist''))"
proof -
  let ?jf = "\<lambda>i. Inr (if i = ''job1'' then Some exampleJob
             else if i = ''job2'' then Some (exampleJob\<lparr>pipeline := Inr None\<rparr>)
             else if i = ''job3'' then Some (exampleJob\<lparr>permutations := Some []\<rparr>)
             else None)"
  let ?uf = "\<lambda>u. Inr (if u = ''me'' then Some exampleUser else None)"
  have jf: "jobFactoryInstance exampleEnv = Inr ?jf" by (simp add: exampleEnv_def)
  have uf: "userFactoryInstance exampleEnv = Inr ?uf" by (simp add: exampleEnv_def)
  have pl: "pipeline exampleJob =
              Inr (Some \<lparr>scmUrl = ''git@github.com:screwdriver-cd/models.git''\<rparr>)"
    by (simp add: exampleJob_def)
  from create_not_found [of exampleEnv ?jf "\<lparr>jobId = ''job9'', username = ''me'', sha = None\<rparr>",
      THEN conjunct1] jf
  have c1: "create exampleEnv \<lparr>jobId = ''job9'', username = ''me'', sha = None\<rparr> =
     ([JobGet ''job9''], Rejects (Error ''Job does not exist''))" by simp
  from create_not_found [of exampleEnv ?jf "\<lparr>jobId = ''job1'', username = ''nobody'', sha = None\<rparr>"
      exampleJob ?uf "Some \<lparr>scmUrl = ''git@github.com:screwdriver-cd/models.git''\<rparr>",
      THEN conjunct2, THEN conjunct1] jf uf pl
  have c2: "create exampleEnv \<lparr>jobId = ''job1'', username = ''nobody'', sha = None\<rparr> =
     ([JobGet ''job1'', UserGet ''nobody'', PipelineGet],
      Rejects (Error ''User does not exist''))" by simp
  from create_not_found [of exampleEnv ?jf "\<lparr>jobId = ''job2'', username = ''me'', sha = None\<rparr>"
      "exampleJob\<lparr>pipeline := Inr None\<rparr>" ?uf _ exampleUser,
      THEN conjunct2, THEN conjunct2] jf uf
  have c3: "create exampleEnv \<lparr>jobId = ''job2'', username = ''me'', sha = None\<rparr> =
     ([JobGet ''job2'', UserGet ''me'', PipelineGet],
      Rejects (Error ''Pipeline does not exist''))" by simp
  from c1 c2 c3 show ?thesis by (intro conjI)
qed

text \<open>
  The claim as stated fails where the job has no pipeline and the user does not exist
  either: the user is checked first, so the rejection is \<^verbatim>\<open>User does not exist\<close>.
\<close>

theorem create_pipeline_absent_counterexample:
  "sha \<lparr>jobId = ''job2'', username = ''nobody'', sha = None\<rparr> = None \<and>
   pipeline (exampleJob\<lparr>pipeline := Inr None\<rparr>) = Inr None \<and>
   create exampleEnv \<lparr>jobId = ''job2'', username = ''nobody'', sha = None\<rparr> =
     ([JobGet ''job2'', UserGet ''nobody'', PipelineGet],
      Rejects (Error ''User does not exist'')) \<and>
   snd (create exampleEnv \<lparr>jobId = ''job2'', username = ''nobody'', sha = None\<rparr>) \<noteq>
     Rejects (Error ''Pipeline does not exist'')"
  by (simp add: create_def Let_def exampleEnv_def getCommitSha_def fetchCommitSha_def lookupCommit_def
      applyToDefaults_fields)

text \<open>
  Claim C3, as amended.  When \<^verbatim>\<open>params.sha\<close> is supplied and is not the empty string,
  \<^verbatim>\<open>getCommitSha\<close> resolves with exactly that value without making any call, \<^verbatim>\<open>create\<close>
  makes no user lookup, no pipeline lookup, no token unsealing and no source-control
  commit lookup, and every model config it hands to \<^verbatim>\<open>super.create\<close> carries that sha.
\<close>

theorem getCommitSha_short_circuit:
  "sha config = Some s \<and> s \<noteq> [] \<longrightarrow>
     getCommitSha w j (applyToDefaults config c t n st) = ([], Resolves s) \<and>
     (\<forall>u. UserGet u \<notin> set (fst (create w config))) \<and>
     PipelineGet \<notin> set (fst (create w config)) \<and>
     UnsealToken \<notin> set (fst (create w config)) \<and>
     (\<forall>url token. ScmGetCommitSha url token \<notin> set (fst (create w config))) \<and>
     (\<forall>mc. SuperCreate mc \<in> set (fst (create w config)) \<longrightarrow> sha mc = Some s)"
proof
  assume a: "sha config = Some s \<and> s \<noteq> []"
  let ?m = "applyToDefaults config (''Started by user '' @ username config)
      (toISOString w (now w)) (now w) ''QUEUED''"
  have g: "getCommitSha w j (applyToDefaults config c t n st) = ([], Resolves s)"
    using a by (intro getCommitSha_truthy) (simp_all add: applyToDefaults_fields)
  from a have s1: "sha config = Some s" and s2: "s \<noteq> []" by simp_all
  have sub: "set (fst (create w config)) \<subseteq>
           {JobGet (jobId config)} \<union> range SuperCreate \<union> range BuildStart"
    by (rule create_truthy_events [OF s1 s2])
  have persisted: "\<forall>mc. SuperCreate mc \<in> set (fst (create w config)) \<longrightarrow> sha mc = Some s"
  proof (intro allI impI)
    fix mc assume "SuperCreate mc \<in> set (fst (create w config))"
    from create_SuperCreate [OF this] obtain j' evs s' p where
      g': "getCommitSha w j' ?m = (evs, Resolves s')" and
      mc: "mc = ?m\<lparr>sha := Some s', container := Some (image p), steps := Some (buildSteps p)\<rparr>"
      by blast
    from a have "getCommitSha w j' ?m = ([], Resolves s)"
      by (intro getCommitSha_truthy) (simp_all add: applyToDefaults_fields)
    with g' have "s' = s" by simp
    with mc show "sha mc = Some s" by simp
  qed
  from g sub persisted
  show "getCommitSha w j (applyToDefaults config c t n st) = ([], Resolves s) \<and>
     (\<forall>u. UserGet u \<notin> set (fst (create w config))) \<and>
     PipelineGet \<notin> set (fst (create w config)) \<and>
     UnsealToken \<notin> set (fst (create w config)) \<and>
     (\<forall>url token. ScmGetCommitSha url token \<notin> set (fst (create w config))) \<and>
     (\<forall>mc. SuperCreate mc \<in> set (fst (create w config)) \<longrightarrow> sha mc = Some s)"
    by auto
qed

theorem getCommitSha_short_circuit_witness:
  "sha exampleConfig = Some ''abc123'' \<and> ''abc123'' \<noteq> [] \<and>
   getCommitSha exampleEnv exampleJob
     (applyToDefaults exampleConfig ''Started by user me'' ''2016-11-01T11:33:20.123Z''
        1478000000123 ''QUEUED'') = ([], Resolves ''abc123'') \<and>
   (\<forall>u. UserGet u \<notin> set (fst (create exampleEnv exampleConfig))) \<and>
   UnsealToken \<notin> set (fst (create exampleEnv exampleConfig)) \<and>
   (\<forall>url token. ScmGetCommitSha url token \<notin> set (fst (create exampleEnv exampleConfig))) \<and>
   SuperCreate exampleModelConfig \<in> set (fst (create exampleEnv exampleConfig)) \<and>
   sha exampleModelConfig = Some ''abc123''"
proof -
  have s: "sha exampleConfig = Some ''abc123'' \<and> ''abc123'' \<noteq> []"
    by (simp add: exampleConfig_def)
  have ev: "SuperCreate exampleModelConfig \<in> set (fst (create exampleEnv exampleConfig))"
    by (simp add: create_example)
  from getCommitSha_short_circuit [of exampleConfig "''abc123''" exampleEnv exampleJob
      "''Started by user me''" "''2016-11-01T11:33:20.123Z''" 1478000000123 "''QUEUED''"] s ev
  show ?thesis by blast
qed

text \<open>
  The claim as stated fails for a sha that is supplied as the empty string: the guard
  \<^verbatim>\<open>if (config.modelConfig.sha)\<close> is false for it, so the user is looked up, the token
  unsealed and the commit looked up, and the resolved sha is the looked-up one.
\<close>

theorem getCommitSha_empty_sha_counterexample:
  "sha \<lparr>jobId = ''job1'', username = ''me'', sha = Some ''''\<rparr> = Some '''' \<and>
   getCommitSha exampleEnv exampleJob
     (applyToDefaults \<lparr>jobId = ''job1'', username = ''me'', sha = Some ''''\<rparr>
        ''Started by user me'' ''2016-11-01T11:33:20.123Z'' 1478000000123 ''QUEUED'') =
     ([UserGet ''me'', PipelineGet, UnsealToken,
       ScmGetCommitSha ''git@github.com:screwdriver-cd/models.git'' ''token''],
      Resolves ''ccc49349d3cffbd12ea9e3d41521480b4aa5de5f'') \<and>
   take 5 (fst (create exampleEnv \<lparr>jobId = ''job1'', username = ''me'', sha = Some ''''\<rparr>)) =
     [JobGet ''job1'', UserGet ''me'', PipelineGet, UnsealToken,
      ScmGetCommitSha ''git@github.com:screwdriver-cd/models.git'' ''token'']"
  by (simp add: create_def Let_def exampleEnv_def exampleJob_def exampleUser_def
      getCommitSha_def fetchCommitSha_def lookupCommit_def applyToDefaults_fields
      persistAndStart_Cons)


section \<open>The factory singleton\<close>

lemma getInstance_existing:
  "instance_var st = Some r \<Longrightarrow> getInstance missing st config = (st, Inr r)"
  by (simp add: getInstance_def baseGetInstance_def)

lemma getInstance_guards:
  assumes "instance_var st = None"
    and "lacksObject config executor \<or> lacksString config uiUri \<or> lacksObject config scmPlugin"
  shows "getInstance missing st config = (st, Inl (Error ''No executor provided to BuildFactory'')) \<or>
         getInstance missing st config = (st, Inl (Error ''No uiUri provided to BuildFactory'')) \<or>
         getInstance missing st config = (st, Inl (Error ''No scm plugin provided to BuildFactory''))"
  using assms by (auto simp: getInstance_def)

lemma getInstance_first:
  assumes "instance_var st = None" and "getInstance missing st config = (st', Inr r)"
  shows "\<exists>c. config = Some c \<and> executor c \<noteq> None \<and> truthy (uiUri c) \<and> scmPlugin c \<noteq> None \<and>
           st' = \<lparr>instance_var = Some (length (objects st)), objects = objects st @ [constructor c]\<rparr> \<and>
           r = length (objects st)"
proof (cases config)
  case None
  with assms show ?thesis by (simp add: getInstance_def lacksObject_def)
next
  case (Some c)
  with assms have g: "\<not> lacksObject config executor" "\<not> lacksString config uiUri"
    "\<not> lacksObject config scmPlugin"
    by (auto simp: getInstance_def split: if_splits)
  with assms Some show ?thesis
    by (auto simp: getInstance_def baseGetInstance_def lacksObject_def lacksString_def
        split: option.splits)
qed

lemma getInstance_Inr:
  assumes "getInstance missing st config = (st', Inr r)"
  shows "instance_var st' = Some r"
proof (cases "instance_var st")
  case None
  from getInstance_first [OF None assms] show ?thesis by auto
next
  case (Some r')
  with assms show ?thesis by (simp add: getInstance_existing)
qed

lemma getInstances_existing:
  "instance_var st = Some r \<Longrightarrow>
     getInstances missing st cs = (st, replicate (length cs) (Inr r))"
  by (induction cs) (simp_all add: getInstance_existing)


section \<open>Claims about getBuildsForJobId and getInstance\<close>

text \<open>
  Claim C6, as amended.  \<^verbatim>\<open>getBuildsForJobId\<close> calls \<^verbatim>\<open>this.list\<close> once, with the filter
  \<^verbatim>\<open>jobId\<close> and page 1 of size 25.  When the list resolves, the result holds the same
  Build records ordered ascending by \<^verbatim>\<open>number\<close>, whatever order they came in; the order
  is strict when no two records share a number.  A rejection of the list is passed on.
\<close>

theorem getBuildsForJobId_sorted:
  "fst (getBuildsForJobId this_list jid) =
     [\<lparr>params_jobId = jid, paginate_count = 25, paginate_page = 1\<rparr>] \<and>
   (this_list \<lparr>params_jobId = jid, paginate_count = 25, paginate_page = 1\<rparr> = Inr records \<longrightarrow>
      (\<exists>out. snd (getBuildsForJobId this_list jid) = Inr out \<and>
         sorted (map number out) \<and> mset out = mset records \<and>
         (distinct (map number records) \<longrightarrow> sorted_wrt (<) (map number out)))) \<and>
   (this_list \<lparr>params_jobId = jid, paginate_count = 25, paginate_page = 1\<rparr> = Inl e \<longrightarrow>
      snd (getBuildsForJobId this_list jid) = Inl e)"
proof (intro conjI impI)
  show "fst (getBuildsForJobId this_list jid) =
     [\<lparr>params_jobId = jid, paginate_count = 25, paginate_page = 1\<rparr>]"
    by (simp add: getBuildsForJobId_def Let_def)
next
  assume l: "this_list \<lparr>params_jobId = jid, paginate_count = 25, paginate_page = 1\<rparr> = Inr records"
  let ?out = "sort_key number records"
  have r: "snd (getBuildsForJobId this_list jid) = Inr ?out"
    using l by (simp add: getBuildsForJobId_def Let_def)
  have s: "sorted (map number ?out)" by (rule sorted_sort_key)
  have m: "mset ?out = mset records" by simp
  have d: "distinct (map number records) \<longrightarrow> sorted_wrt (<) (map number ?out)"
  proof
    assume "distinct (map number records)"
    moreover have "mset (map number ?out) = mset (map number records)" by simp
    ultimately have "distinct (map number ?out)"
      by (metis mset_eq_imp_distinct_iff)
    with s show "sorted_wrt (<) (map number ?out)"
      by (simp add: strict_sorted_iff)
  qed
  from r s m d show "\<exists>out. snd (getBuildsForJobId this_list jid) = Inr out \<and>
         sorted (map number out) \<and> mset out = mset records \<and>
         (distinct (map number records) \<longrightarrow> sorted_wrt (<) (map number out))"
    by blast
next
  assume "this_list \<lparr>params_jobId = jid, paginate_count = 25, paginate_page = 1\<rparr> = Inl e"
  then show "snd (getBuildsForJobId this_list jid) = Inl e"
    by (simp add: getBuildsForJobId_def Let_def)
qed

theorem getBuildsForJobId_sorted_witness:
  "(\<lambda>c. if params_jobId c = ''job1'' \<and> paginate_count c = 25 \<and> paginate_page c = 1
         then Inr [exampleBuild\<lparr>number := 3, build_id := ''c''\<rparr>,
                   exampleBuild\<lparr>number := 1, build_id := ''a''\<rparr>,
                   exampleBuild\<lparr>number := 2, build_id := ''b''\<rparr>]
         else Inl (Error ''bad query''))
     \<lparr>params_jobId = ''job1'', paginate_count = 25, paginate_page = 1\<rparr> =
     Inr [exampleBuild\<lparr>number := 3, build_id := ''c''\<rparr>,
          exampleBuild\<lparr>number := 1, build_id := ''a''\<rparr>,
          exampleBuild\<lparr>number := 2, build_id := ''b''\<rparr>] \<and>
   distinct (map number [exampleBuild\<lparr>number := 3, build_id := ''c''\<rparr>,
          exampleBuild\<lparr>number := 1, build_id := ''a''\<rparr>,
          exampleBuild\<lparr>number := 2, build_id := ''b''\<rparr>]) \<and>
   snd (getBuildsForJobId
     (\<lambda>c. if params_jobId c = ''job1'' \<and> paginate_count c = 25 \<and> paginate_page c = 1
         then Inr [exampleBuild\<lparr>number := 3, build_id := ''c''\<rparr>,
                   exampleBuild\<lparr>number := 1, build_id := ''a''\<rparr>,
                   exampleBuild\<lparr>number := 2, build_id := ''b''\<rparr>]
         else Inl (Error ''bad query'')) ''job1'') =
     Inr [exampleBuild\<lparr>number := 1, build_id := ''a''\<rparr>,
          exampleBuild\<lparr>number := 2, build_id := ''b''\<rparr>,
          exampleBuild\<lparr>number := 3, build_id := ''c''\<rparr>] \<and>
   sorted_wrt (<) (map number [exampleBuild\<lparr>number := 1, build_id := ''a''\<rparr>,
          exampleBuild\<lparr>number := 2, build_id := ''b''\<rparr>,
          exampleBuild\<lparr>number := 3, build_id := ''c''\<rparr>]) \<and>
   snd (getBuildsForJobId (\<lambda>c. Inl (Error ''datastore down'')) ''job1'') =
     Inl (Error ''datastore down'')"
proof -
  let ?l = "\<lambda>c. if params_jobId c = ''job1'' \<and> paginate_count c = 25 \<and> paginate_page c = 1
         then Inr [exampleBuild\<lparr>number := 3, build_id := ''c''\<rparr>,
                   exampleBuild\<lparr>number := 1, build_id := ''a''\<rparr>,
                   exampleBuild\<lparr>number := 2, build_id := ''b''\<rparr>]
         else Inl (Error ''bad query'')"
  let ?recs = "[exampleBuild\<lparr>number := 3, build_id := ''c''\<rparr>,
                   exampleBuild\<lparr>number := 1, build_id := ''a''\<rparr>,
                   exampleBuild\<lparr>number := 2, build_id := ''b''\<rparr>]"
  have l: "?l \<lparr>params_jobId = ''job1'', paginate_count = 25, paginate_page = 1\<rparr> = Inr ?recs"
    by simp
  have d: "distinct (map number ?recs)" by simp
  have v: "snd (getBuildsForJobId ?l ''job1'') =
     Inr [exampleBuild\<lparr>number := 1, build_id := ''a''\<rparr>,
          exampleBuild\<lparr>number := 2, build_id := ''b''\<rparr>,
          exampleBuild\<lparr>number := 3, build_id := ''c''\<rparr>]"
    by (simp add: getBuildsForJobId_def Let_def)
  from getBuildsForJobId_sorted [of ?l "''job1''" ?recs] l d
  obtain out where o: "snd (getBuildsForJobId ?l ''job1'') = Inr out"
    "sorted_wrt (<) (map number out)" by blast
  with v have s: "sorted_wrt (<) (map number [exampleBuild\<lparr>number := 1, build_id := ''a''\<rparr>,
          exampleBuild\<lparr>number := 2, build_id := ''b''\<rparr>,
          exampleBuild\<lparr>number := 3, build_id := ''c''\<rparr>])" by simp
  from getBuildsForJobId_sorted [of "\<lambda>c. Inl (Error ''datastore down'')" "''job1''" _ "Error ''datastore down''"]
  have e: "snd (getBuildsForJobId (\<lambda>c. Inl (Error ''datastore down'')) ''job1'') =
     Inl (Error ''datastore down'')" by simp
  from l d v s e show ?thesis by (intro conjI)
qed

text \<open>
  The claim as stated asks for a strictly ascending result.  Two builds of a job that
  were created in the same millisecond carry the same number, and the result then holds
  both: it is ascending, not strictly ascending.
\<close>

theorem getBuildsForJobId_strict_counterexample:
  "snd (getBuildsForJobId
      (\<lambda>c. Inr [exampleBuild\<lparr>build_id := ''b1''\<rparr>, exampleBuild\<lparr>build_id := ''b2''\<rparr>]) ''job1'') =
     Inr [exampleBuild\<lparr>build_id := ''b1''\<rparr>, exampleBuild\<lparr>build_id := ''b2''\<rparr>] \<and>
   map number [exampleBuild\<lparr>build_id := ''b1''\<rparr>, exampleBuild\<lparr>build_id := ''b2''\<rparr>] =
     [1478000000123, 1478000000123] \<and>
   \<not> sorted_wrt (<) (map number
        [exampleBuild\<lparr>build_id := ''b1''\<rparr>, exampleBuild\<lparr>build_id := ''b2''\<rparr>])"
  by (simp add: getBuildsForJobId_def Let_def exampleBuild_def exampleModelConfig_def
      applyToDefaults_fields model_config.defs)

text \<open>
  Claim C5.  While the module holds no instance, a call of \<^verbatim>\<open>getInstance\<close> whose config
  is missing, or lacks the executor, the uiUri or the scm plugin, throws one of the three
  configuration errors and leaves the module as it was: nothing is constructed.  A call
  that returns while no instance is held was given all three, constructs the instance
  from its config and stores it.  After any call that returned an instance, every later
  call, whatever its config (none included), returns that same instance and changes
  nothing.
\<close>

theorem getInstance_singleton:
  "(instance_var st = None \<and>
    (lacksObject config executor \<or> lacksString config uiUri \<or> lacksObject config scmPlugin) \<longrightarrow>
      getInstance missing st config \<in>
        {(st, Inl (Error ''No executor provided to BuildFactory'')),
         (st, Inl (Error ''No uiUri provided to BuildFactory'')),
         (st, Inl (Error ''No scm plugin provided to BuildFactory''))}) \<and>
   (instance_var st = None \<and> getInstance missing st config = (st', Inr r) \<longrightarrow>
      (\<exists>c. config = Some c \<and> executor c \<noteq> None \<and> truthy (uiUri c) \<and> scmPlugin c \<noteq> None \<and>
         objects st' = objects st @ [constructor c] \<and> r = length (objects st))) \<and>
   (getInstance missing st config = (st', Inr r) \<longrightarrow>
      instance_var st' = Some r \<and>
      (\<forall>cs. getInstances missing st' cs = (st', replicate (length cs) (Inr r)))) \<and>
   (instance_var st = Some r \<longrightarrow> getInstance missing st config = (st, Inr r))"
proof (intro conjI impI)
  assume "instance_var st = None \<and>
    (lacksObject config executor \<or> lacksString config uiUri \<or> lacksObject config scmPlugin)"
  then show "getInstance missing st config \<in>
        {(st, Inl (Error ''No executor provided to BuildFactory'')),
         (st, Inl (Error ''No uiUri provided to BuildFactory'')),
         (st, Inl (Error ''No scm plugin provided to BuildFactory''))}"
    using getInstance_guards [of st config missing] by blast
next
  assume a: "instance_var st = None \<and> getInstance missing st config = (st', Inr r)"
  then have n: "instance_var st = None" and g: "getInstance missing st config = (st', Inr r)"
    by simp_all
  from getInstance_first [OF n g]
  show "\<exists>c. config = Some c \<and> executor c \<noteq> None \<and> truthy (uiUri c) \<and> scmPlugin c \<noteq> None \<and>
         objects st' = objects st @ [constructor c] \<and> r = length (objects st)"
    by auto
next
  assume g: "getInstance missing st config = (st', Inr r)"
  then show "instance_var st' = Some r" by (rule getInstance_Inr)
  then show "\<forall>cs. getInstances missing st' cs = (st', replicate (length cs) (Inr r))"
    by (simp add: getInstances_existing)
next
  assume "instance_var st = Some r"
  then show "getInstance missing st config = (st, Inr r)" by (rule getInstance_existing)
qed

lemma getInstance_example:
  "getInstance exampleMissing \<lparr>instance_var = None, objects = []\<rparr> (Some exampleFactoryConfig) =
     (\<lparr>instance_var = Some 0, objects = [constructor exampleFactoryConfig]\<rparr>, Inr 0)"
  by (simp add: getInstance_def baseGetInstance_def exampleMissing_def exampleFactoryConfig_def
      lacksObject_def lacksString_def)

theorem getInstance_singleton_witness:
  "getInstance exampleMissing \<lparr>instance_var = None, objects = []\<rparr>
      (Some (exampleFactoryConfig\<lparr>executor := None\<rparr>)) =
     (\<lparr>instance_var = None, objects = []\<rparr>, Inl (Error ''No executor provided to BuildFactory'')) \<and>
   getInstance exampleMissing \<lparr>instance_var = None, objects = []\<rparr> (Some exampleFactoryConfig) =
     (\<lparr>instance_var = Some 0, objects = [constructor exampleFactoryConfig]\<rparr>, Inr 0) \<and>
   executor exampleFactoryConfig \<noteq> None \<and> truthy (uiUri exampleFactoryConfig) \<and>
   scmPlugin exampleFactoryConfig \<noteq> None \<and>
   getInstances exampleMissing \<lparr>instance_var = Some 0, objects = [constructor exampleFactoryConfig]\<rparr>
      [None, Some (exampleFactoryConfig\<lparr>executor := Some ''other''\<rparr>)] =
     (\<lparr>instance_var = Some 0, objects = [constructor exampleFactoryConfig]\<rparr>, [Inr 0, Inr 0]) \<and>
   getInstance exampleMissing \<lparr>instance_var = Some 0, objects = [constructor exampleFactoryConfig]\<rparr>
      None =
     (\<lparr>instance_var = Some 0, objects = [constructor exampleFactoryConfig]\<rparr>, Inr 0)"
proof -
  let ?st0 = "\<lparr>instance_var = None, objects = []\<rparr>"
  let ?st1 = "\<lparr>instance_var = Some 0, objects = [constructor exampleFactoryConfig]\<rparr>"
  let ?bad = "Some (exampleFactoryConfig\<lparr>executor := None\<rparr>)"
  have l: "instance_var ?st0 = None \<and> (lacksObject ?bad executor \<or> lacksString ?bad uiUri \<or>
             lacksObject ?bad scmPlugin)"
    by (simp add: lacksObject_def)
  have ne: "getInstance exampleMissing ?st0 ?bad \<noteq> (?st0, Inl (Error ''No uiUri provided to BuildFactory''))"
    "getInstance exampleMissing ?st0 ?bad \<noteq> (?st0, Inl (Error ''No scm plugin provided to BuildFactory''))"
    by (simp_all add: getInstance_def lacksObject_def)
  from getInstance_singleton [of ?st0 ?bad exampleMissing, THEN conjunct1] l ne
  have c1: "getInstance exampleMissing ?st0 ?bad =
     (?st0, Inl (Error ''No executor provided to BuildFactory''))" by blast
  note t = getInstance_singleton [of ?st0 "Some exampleFactoryConfig" exampleMissing ?st1 0]
  from t getInstance_example
  have c3: "getInstances exampleMissing ?st1 [None, Some (exampleFactoryConfig\<lparr>executor := Some ''other''\<rparr>)]
     = (?st1, replicate (length [None, Some (exampleFactoryConfig\<lparr>executor := Some ''other''\<rparr>)]) (Inr 0))"
    by blast
  from t getInstance_example
  obtain c where "Some exampleFactoryConfig = Some c" and
    "executor c \<noteq> None \<and> truthy (uiUri c) \<and> scmPlugin c \<noteq> None"
    by auto
  then have c2: "executor exampleFactoryConfig \<noteq> None \<and> truthy (uiUri exampleFactoryConfig) \<and>
    scmPlugin exampleFactoryConfig \<noteq> None" by simp
  from getInstance_singleton [of ?st1 None exampleMissing _ 0]
  have c4: "getInstance exampleMissing ?st1 None = (?st1, Inr 0)" by simp
  from c1 getInstance_example c2 c3 c4 show ?thesis by simp
qed

section \<open>Properties of the entity record\<close>

lemma isDirty_iff: "isDirty r \<longleftrightarrow> (\<exists>k \<in> set (keys r). current r k \<noteq> snapshot r k)"
  by (simp add: isDirty_def isDirtyKey_def list_ex_iff)

lemma changedFields_empty: "changedFields r = [] \<longleftrightarrow> \<not> isDirty r"
  by (auto simp: changedFields_def isDirty_def list_ex_iff filter_empty_conv)

lemma set_changedFields:
  "(k, v) \<in> set (changedFields r) \<longleftrightarrow>
     k \<in> set (keys r) \<and> current r k \<noteq> snapshot r k \<and> v = current r k"
  by (auto simp: changedFields_def isDirtyKey_def)

lemma names_changedFields:
  "map fst (changedFields r) = filter (\<lambda>k. current r k \<noteq> snapshot r k) (keys r)"
  by (simp add: changedFields_def isDirtyKey_def [abs_def] comp_def)

lemma update_clean: "\<not> isDirty r \<Longrightarrow> update ds r = ([], Inr r, r)"
  by (simp add: update_def changedFields_empty)

lemma update_resolved:
  "isDirty r \<Longrightarrow>
   ds \<lparr>req_table = table r, req_id = current r ''id'', req_data = changedFields r\<rparr> = Inr x \<Longrightarrow>
     update ds r =
       ([\<lparr>req_table = table r, req_id = current r ''id'', req_data = changedFields r\<rparr>],
        Inr (r\<lparr>snapshot := current r\<rparr>), r\<lparr>snapshot := current r\<rparr>)"
  by (simp add: update_def changedFields_empty Let_def)

lemma update_rejected:
  "isDirty r \<Longrightarrow>
   ds \<lparr>req_table = table r, req_id = current r ''id'', req_data = changedFields r\<rparr> = Inl e \<Longrightarrow>
     update ds r =
       ([\<lparr>req_table = table r, req_id = current r ''id'', req_data = changedFields r\<rparr>],
        Inl e, r)"
  by (simp add: update_def changedFields_empty Let_def)

lemma clean_after_snapshot: "\<not> isDirty (r\<lparr>snapshot := current r\<rparr>)"
  by (simp add: isDirty_iff)







section \<open>Claims about the entity record\<close>

text \<open>
  Claim C4.  \<^verbatim>\<open>update()\<close> on a record without dirty fields resolves with the unchanged
  record and makes no datastore call.  On a record with dirty fields it calls the
  datastore's update exactly once, with the record's table, its id, and as data exactly
  the dirty declared fields, each with its current value, in declared order.  When the
  datastore resolves, the snapshot becomes the current values, so the record is clean,
  and \<^verbatim>\<open>update()\<close> resolves with the record.  When the datastore rejects, \<^verbatim>\<open>update()\<close>
  rejects with the same error and the record is left as it was.
\<close>

theorem update_contract:
  "(\<not> isDirty r \<longrightarrow> update ds r = ([], Inr r, r)) \<and>
   (isDirty r \<longrightarrow>
      (\<exists>request.
         fst (update ds r) = [request] \<and>
         req_table request = table r \<and>
         req_id request = current r ''id'' \<and>
         (\<forall>k v. (k, v) \<in> set (req_data request) \<longleftrightarrow>
                  k \<in> set (keys r) \<and> current r k \<noteq> snapshot r k \<and> v = current r k) \<and>
         map fst (req_data request) = filter (\<lambda>k. current r k \<noteq> snapshot r k) (keys r) \<and>
         (\<forall>x. ds request = Inr x \<longrightarrow>
            snd (update ds r) = (Inr (r\<lparr>snapshot := current r\<rparr>), r\<lparr>snapshot := current r\<rparr>) \<and>
            \<not> isDirty (r\<lparr>snapshot := current r\<rparr>)) \<and>
         (\<forall>e. ds request = Inl e \<longrightarrow> snd (update ds r) = (Inl e, r))))"
proof (intro conjI impI)
  assume "\<not> isDirty r"
  then show "update ds r = ([], Inr r, r)" by (rule update_clean)
next
  assume d: "isDirty r"
  let ?req = "\<lparr>req_table = table r, req_id = current r ''id'', req_data = changedFields r\<rparr>"
  have call: "fst (update ds r) = [?req]"
    using d by (cases "ds ?req") (simp_all add: update_resolved update_rejected)
  have data: "\<forall>k v. (k, v) \<in> set (req_data ?req) \<longleftrightarrow>
                  k \<in> set (keys r) \<and> current r k \<noteq> snapshot r k \<and> v = current r k"
    by (simp add: set_changedFields)
  have names: "map fst (req_data ?req) = filter (\<lambda>k. current r k \<noteq> snapshot r k) (keys r)"
    by (simp add: names_changedFields)
  have ok: "\<forall>x. ds ?req = Inr x \<longrightarrow>
            snd (update ds r) = (Inr (r\<lparr>snapshot := current r\<rparr>), r\<lparr>snapshot := current r\<rparr>) \<and>
            \<not> isDirty (r\<lparr>snapshot := current r\<rparr>)"
    using d by (simp add: update_resolved clean_after_snapshot)
  have bad: "\<forall>e. ds ?req = Inl e \<longrightarrow> snd (update ds r) = (Inl e, r)"
    using d by (simp add: update_rejected)
  have "fst (update ds r) = [?req] \<and>
         req_table ?req = table r \<and>
         req_id ?req = current r ''id'' \<and>
         (\<forall>k v. (k, v) \<in> set (req_data ?req) \<longleftrightarrow>
                  k \<in> set (keys r) \<and> current r k \<noteq> snapshot r k \<and> v = current r k) \<and>
         map fst (req_data ?req) = filter (\<lambda>k. current r k \<noteq> snapshot r k) (keys r) \<and>
         (\<forall>x. ds ?req = Inr x \<longrightarrow>
            snd (update ds r) = (Inr (r\<lparr>snapshot := current r\<rparr>), r\<lparr>snapshot := current r\<rparr>) \<and>
            \<not> isDirty (r\<lparr>snapshot := current r\<rparr>)) \<and>
         (\<forall>e. ds ?req = Inl e \<longrightarrow> snd (update ds r) = (Inl e, r))"
    using call data names ok bad by simp
  then show "\<exists>request.
         fst (update ds r) = [request] \<and>
         req_table request = table r \<and>
         req_id request = current r ''id'' \<and>
         (\<forall>k v. (k, v) \<in> set (req_data request) \<longleftrightarrow>
                  k \<in> set (keys r) \<and> current r k \<noteq> snapshot r k \<and> v = current r k) \<and>
         map fst (req_data request) = filter (\<lambda>k. current r k \<noteq> snapshot r k) (keys r) \<and>
         (\<forall>x. ds request = Inr x \<longrightarrow>
            snd (update ds r) = (Inr (r\<lparr>snapshot := current r\<rparr>), r\<lparr>snapshot := current r\<rparr>) \<and>
            \<not> isDirty (r\<lparr>snapshot := current r\<rparr>)) \<and>
         (\<forall>e. ds request = Inl e \<longrightarrow> snd (update ds r) = (Inl e, r))"
    by (rule exI [of _ ?req])
qed

lemma base_clean: "\<not> isDirty base"
  by (simp add: isDirty_iff base_def)

lemma banana_dirty: "isDirty (assign base ''foo'' ''banana'')"
  by (simp add: isDirty_iff base_def assign_def baseConfig_def)

lemma banana_changedFields:
  "changedFields (assign base ''foo'' ''banana'') = [(''foo'', Some ''banana'')]"
  by (simp add: changedFields_def isDirtyKey_def base_def assign_def baseConfig_def)

theorem update_contract_witness:
  "\<not> isDirty base \<and>
   update (\<lambda>request. Inr ''1234'') base = ([], Inr base, base) \<and>
   isDirty (assign base ''foo'' ''banana'') \<and>
   fst (update (\<lambda>request. Inr ''1234'') (assign base ''foo'' ''banana'')) =
     [\<lparr>req_table = ''base'', req_id = Some ''as12345'',
       req_data = [(''foo'', Some ''banana'')]\<rparr>] \<and>
   snd (update (\<lambda>request. Inr ''1234'') (assign base ''foo'' ''banana'')) =
     (Inr ((assign base ''foo'' ''banana'')\<lparr>snapshot := current (assign base ''foo'' ''banana'')\<rparr>),
      (assign base ''foo'' ''banana'')\<lparr>snapshot := current (assign base ''foo'' ''banana'')\<rparr>) \<and>
   \<not> isDirty ((assign base ''foo'' ''banana'')\<lparr>snapshot := current (assign base ''foo'' ''banana'')\<rparr>) \<and>
   snd (update (\<lambda>request. Inl (Error ''iLessThanThreeMocha'') :: string promise)
          (assign base ''foo'' ''banana'')) =
     (Inl (Error ''iLessThanThreeMocha''), assign base ''foo'' ''banana'')"
proof -
  let ?ok = "\<lambda>request :: string update_request. Inr ''1234'' :: string promise"
  let ?bad = "\<lambda>request :: string update_request. Inl (Error ''iLessThanThreeMocha'') :: string promise"
  let ?d = "assign base ''foo'' ''banana''"
  from update_contract [of base ?ok] base_clean
  have c1: "update ?ok base = ([], Inr base, base)" by blast
  from update_contract [of ?d ?ok] banana_dirty
  obtain request where rq: "fst (update ?ok ?d) = [request]"
    and ok: "\<forall>x. ?ok request = Inr x \<longrightarrow>
            snd (update ?ok ?d) = (Inr (?d\<lparr>snapshot := current ?d\<rparr>), ?d\<lparr>snapshot := current ?d\<rparr>) \<and>
            \<not> isDirty (?d\<lparr>snapshot := current ?d\<rparr>)"
    by blast
  from ok have c3: "snd (update ?ok ?d) = (Inr (?d\<lparr>snapshot := current ?d\<rparr>), ?d\<lparr>snapshot := current ?d\<rparr>)"
    and c4: "\<not> isDirty (?d\<lparr>snapshot := current ?d\<rparr>)" by simp_all
  have c2: "fst (update ?ok ?d) =
     [\<lparr>req_table = ''base'', req_id = Some ''as12345'', req_data = [(''foo'', Some ''banana'')]\<rparr>]"
    using update_resolved [where ds = ?ok, OF banana_dirty]
    by (simp add: banana_changedFields) (simp add: assign_def base_def baseConfig_def)
  from update_contract [of ?d ?bad] banana_dirty
  obtain request' :: "string update_request" where bad: "\<forall>e. ?bad request' = Inl e \<longrightarrow> snd (update ?bad ?d) = (Inl e, ?d)"
    by blast
  then have c5: "snd (update ?bad ?d) = (Inl (Error ''iLessThanThreeMocha''), ?d)" by simp
  from base_clean c1 banana_dirty c2 c3 c4 c5 show ?thesis by (intro conjI)
qed





end
